theory Spec2Isabelle
  imports Main
begin

section \<open>Python values and strings\<close>

text \<open>
  Strings are lists of code points below 256 (the Latin-1 range of Python's \<open>str\<close>);
  \<open>of_char\<close> reads the code point. Values that come out of a JSON document or a
  database row are \<open>pyval\<close>; numbers are integers.
\<close>

datatype pyval =
    PNone
  | PBool bool
  | PInt int
  | PStr string
  | PList "pyval list"
  | PDict "(string \<times> pyval) list"

datatype py_error = TypeError | KeyError

text \<open>Python truthiness, the test behind \<open>if x:\<close>, \<open>not x\<close> and \<open>x or y\<close>.\<close>

fun truthy :: "pyval \<Rightarrow> bool" where
  "truthy PNone = False"
| "truthy (PBool b) = b"
| "truthy (PInt n) = (n \<noteq> 0)"
| "truthy (PStr s) = (s \<noteq> [])"
| "truthy (PList xs) = (xs \<noteq> [])"
| "truthy (PDict kvs) = (kvs \<noteq> [])"

definition py_or :: "pyval \<Rightarrow> pyval \<Rightarrow> pyval" where
  "py_or a b = (if truthy a then a else b)"

text \<open>\<open>x[:n]\<close>: defined on strings and lists, a TypeError on every other value.\<close>

fun py_slice_to :: "nat \<Rightarrow> pyval \<Rightarrow> py_error + pyval" where
  "py_slice_to n (PStr s) = Inr (PStr (take n s))"
| "py_slice_to n (PList xs) = Inr (PList (take n xs))"
| "py_slice_to n v = Inl TypeError"

text \<open>\<open>str.isspace\<close> and \<open>str.lower\<close> on code points below 256.\<close>

definition py_isspace :: "char \<Rightarrow> bool" where
  "py_isspace c =
     (let n = (of_char c :: nat)
      in (9 \<le> n \<and> n \<le> 13) \<or> (28 \<le> n \<and> n \<le> 32) \<or> n = 133 \<or> n = 160)"

definition py_lower_char :: "char \<Rightarrow> char" where
  "py_lower_char c =
     (let n = (of_char c :: nat)
      in if (65 \<le> n \<and> n \<le> 90) \<or> (192 \<le> n \<and> n \<le> 222 \<and> n \<noteq> 215)
         then char_of (n + 32) else c)"

definition lower :: "string \<Rightarrow> string" where
  "lower s = map py_lower_char s"

definition strip :: "string \<Rightarrow> string" where
  "strip s = rev (dropWhile py_isspace (rev (dropWhile py_isspace s)))"

text \<open>\<open>s.replace(' ', '_')\<close>.\<close>

definition replace_space_underscore :: "string \<Rightarrow> string" where
  "replace_space_underscore s = map (\<lambda>c. if c = CHR '' '' then CHR ''_'' else c) s"

text \<open>\<open>keyword in s\<close> on strings: \<open>keyword\<close> occurs as a contiguous run.\<close>

fun starts_with :: "string \<Rightarrow> string \<Rightarrow> bool" where
  "starts_with [] s = True"
| "starts_with (k # ks) [] = False"
| "starts_with (k # ks) (c # cs) = (k = c \<and> starts_with ks cs)"

fun py_in :: "string \<Rightarrow> string \<Rightarrow> bool" where
  "py_in k [] = (k = [])"
| "py_in k (c # cs) = (starts_with k (c # cs) \<or> py_in k cs)"

text \<open>\<open>s.encode('utf-8')\<close> for code points below 256.\<close>

definition encode_utf8_char :: "char \<Rightarrow> string" where
  "encode_utf8_char c =
     (let n = (of_char c :: nat)
      in if n < 128 then [c] else [char_of (192 + n div 64), char_of (128 + n mod 64)])"

definition encode_utf8 :: "string \<Rightarrow> string" where
  "encode_utf8 s = concat (map encode_utf8_char s)"

section \<open>Analysis cache: the text hash\<close>

text \<open>
  \<open>generate_text_hash\<close> of database.py. The digest \<open>hashlib.sha256(b).hexdigest()\<close>
  is library code and enters as the parameter \<open>sha256\<close>.
\<close>

definition hash_input :: "string \<Rightarrow> string \<Rightarrow> string" where
  "hash_input text language = (let normalized_text = lower (strip text)
                               in normalized_text @ ''|'' @ language)"

definition generate_text_hash :: "(string \<Rightarrow> string) \<Rightarrow> string \<Rightarrow> string \<Rightarrow> string" where
  "generate_text_hash sha256 text language = sha256 (encode_utf8 (hash_input text language))"

section \<open>Multi-source aggregator\<close>

text \<open>
  A Python \<open>dict\<close> with string keys is an association list read with \<open>map_of\<close>.
  \<open>d.get(k)\<close> is \<open>dict_get\<close>, \<open>d.get(k, v)\<close> is \<open>dict_get_default\<close>, and a dict
  is truthy when it has an entry.
\<close>

type_synonym pydict = "(string \<times> pyval) list"

definition dict_get :: "pydict \<Rightarrow> string \<Rightarrow> pyval" where
  "dict_get d k = (case map_of d k of None \<Rightarrow> PNone | Some v \<Rightarrow> v)"

definition dict_get_default :: "pydict \<Rightarrow> string \<Rightarrow> pyval \<Rightarrow> pyval" where
  "dict_get_default d k v0 = (case map_of d k of None \<Rightarrow> v0 | Some v \<Rightarrow> v)"

text \<open>Instants (\<open>datetime.utcnow()\<close>) are microseconds since the epoch.\<close>

type_synonym timestamp = int

definition days :: "int \<Rightarrow> int" where
  "days n = n * 86400000000"

text \<open>
  What one provider call does: it raises somewhere inside the adapter's \<open>try\<close> (timeout,
  connection error, a reply of unexpected shape), it reaches a \<open>return None\<close> (status
  other than 200, empty result list), or it builds the adapter's dict.
\<close>

datatype 'a response = Fault | NoData | Found 'a

record world =
  kg_api_key :: "string option"
  kg_reply :: "string \<Rightarrow> string \<Rightarrow> pydict response"
  dbpedia_reply :: "string \<Rightarrow> pydict response"
  wikidata_reply :: "string \<Rightarrow> pydict response"
  openlibrary_reply :: "string \<Rightarrow> pydict response"

text \<open>\<open>if not self.kg_api_key\<close>: the key is \<open>None\<close> or the empty string.\<close>

definition has_api_key :: "world \<Rightarrow> bool" where
  "has_api_key w = (case kg_api_key w of None \<Rightarrow> False | Some k \<Rightarrow> k \<noteq> [])"

text \<open>
  The four adapters of sequential mode. Each body is one \<open>try\<close> whose \<open>except Exception\<close>
  returns \<open>None\<close>. The rate limiter they call first only delays the request.
\<close>

definition get_knowledge_graph_info :: "world \<Rightarrow> string \<Rightarrow> string \<Rightarrow> pydict option" where
  "get_knowledge_graph_info w entity_name entity_type =
     (if \<not> has_api_key w then None
      else case kg_reply w entity_name entity_type of
             Fault \<Rightarrow> None | NoData \<Rightarrow> None | Found item \<Rightarrow> Some item)"

definition get_dbpedia_info :: "world \<Rightarrow> string \<Rightarrow> pydict option" where
  "get_dbpedia_info w entity_name =
     (case dbpedia_reply w entity_name of
        Fault \<Rightarrow> None | NoData \<Rightarrow> None | Found result \<Rightarrow> Some result)"

definition get_wikidata_enhanced :: "world \<Rightarrow> string \<Rightarrow> pydict option" where
  "get_wikidata_enhanced w entity_name =
     (case wikidata_reply w entity_name of
        Fault \<Rightarrow> None | NoData \<Rightarrow> None | Found entity_details \<Rightarrow> Some entity_details)"

definition get_openlibrary_info :: "world \<Rightarrow> string \<Rightarrow> pydict option" where
  "get_openlibrary_info w work_title =
     (case openlibrary_reply w work_title of
        Fault \<Rightarrow> None | NoData \<Rightarrow> None | Found book \<Rightarrow> Some book)"

text \<open>The four closures of parallel mode, which repeat the adapters without the limiter.\<close>

definition fetch_kg :: "world \<Rightarrow> string \<Rightarrow> string \<Rightarrow> pydict option" where
  "fetch_kg w entity_name entity_type =
     (case (if \<not> has_api_key w then NoData else kg_reply w entity_name entity_type) of
        Found item \<Rightarrow> Some item | NoData \<Rightarrow> None | Fault \<Rightarrow> None)"

definition fetch_dbpedia :: "world \<Rightarrow> string \<Rightarrow> pydict option" where
  "fetch_dbpedia w entity_name =
     (case dbpedia_reply w entity_name of
        Found result \<Rightarrow> Some result | NoData \<Rightarrow> None | Fault \<Rightarrow> None)"

definition fetch_wikidata :: "world \<Rightarrow> string \<Rightarrow> pydict option" where
  "fetch_wikidata w entity_name =
     (case wikidata_reply w entity_name of
        Found entity_details \<Rightarrow> Some entity_details | NoData \<Rightarrow> None | Fault \<Rightarrow> None)"

definition fetch_openlibrary :: "world \<Rightarrow> string \<Rightarrow> pydict option" where
  "fetch_openlibrary w entity_name =
     (case openlibrary_reply w entity_name of
        Found book \<Rightarrow> Some book | NoData \<Rightarrow> None | Fault \<Rightarrow> None)"

text \<open>
  \<open>combined_data\<close>. The keys that the literal at the top of the function does not
  create (\<open>image_url\<close>, \<open>kg_confidence_score\<close>, \<open>dbpedia_uri\<close>, \<open>wikidata_id\<close>,
  \<open>literary_info\<close>) are options: \<open>None\<close> is a missing key.
\<close>

record combined_data =
  c_entity_name :: string
  c_entity_type :: string
  c_summary :: pyval
  c_description :: pyval
  c_url :: pyval
  c_sources_consulted :: "string list"
  c_confidence :: string
  c_retrieved_at :: timestamp
  c_image_url :: "pyval option"
  c_kg_confidence_score :: "pyval option"
  c_dbpedia_uri :: "pyval option"
  c_wikidata_id :: "pyval option"
  c_literary_info :: "pydict option"

definition new_combined_data :: "string \<Rightarrow> string \<Rightarrow> timestamp \<Rightarrow> combined_data" where
  "new_combined_data entity_name entity_type now =
     \<lparr>c_entity_name = entity_name, c_entity_type = entity_type, c_summary = PNone,
      c_description = PNone, c_url = PNone, c_sources_consulted = [], c_confidence = ''low'',
      c_retrieved_at = now, c_image_url = None, c_kg_confidence_score = None,
      c_dbpedia_uri = None, c_wikidata_id = None, c_literary_info = None\<rparr>"

text \<open>
  \<open>entity_type == "WORK_OF_ART" or any(keyword in entity_name.lower() for keyword in
  ['book', 'novel', 'play'])\<close>
\<close>

definition wants_openlibrary :: "string \<Rightarrow> string \<Rightarrow> bool" where
  "wants_openlibrary entity_name entity_type =
     (entity_type = ''WORK_OF_ART''
      \<or> list_ex (\<lambda>keyword. py_in keyword (lower entity_name)) [''book'', ''novel'', ''play''])"

text \<open>
  The executor loop: every submitted task runs, and \<open>results[source]\<close> is stored as the
  futures complete, in the order \<open>completion_order\<close>. The closures catch every exception
  themselves, so \<open>future.result()\<close> returns.
\<close>

definition collect_results ::
  "(string \<times> pydict option) list \<Rightarrow> string list \<Rightarrow> (string \<rightharpoonup> pydict option)" where
  "collect_results tasks completion_order =
     fold (\<lambda>source results.
             case map_of tasks source of
               None \<Rightarrow> results
             | Some outcome \<Rightarrow> results(source \<mapsto> outcome))
          completion_order Map.empty"

text \<open>\<open>results.get(source)\<close>\<close>

definition results_get :: "(string \<rightharpoonup> pydict option) \<Rightarrow> string \<Rightarrow> pydict option" where
  "results_get results source = (case results source of None \<Rightarrow> None | Some outcome \<Rightarrow> outcome)"

text \<open>\<open>if data:\<close> on an adapter result: not \<open>None\<close> and not the empty dict.\<close>

definition responded :: "pydict option \<Rightarrow> bool" where
  "responded d = (case d of None \<Rightarrow> False | Some kvs \<Rightarrow> kvs \<noteq> [])"

definition bind_result :: "py_error + 'a \<Rightarrow> ('a \<Rightarrow> py_error + 'b) \<Rightarrow> py_error + 'b" where
  "bind_result r f = (case r of Inl e \<Rightarrow> Inl e | Inr x \<Rightarrow> f x)"

text \<open>
  Lines 579 to 638 of multi_source_service.py, the merge of parallel mode, one
  definition for each numbered block of the source. The argument is what
  \<open>results.get(source)\<close> returned.
\<close>

definition parallel_kg :: "pydict option \<Rightarrow> combined_data \<Rightarrow> combined_data" where
  "parallel_kg kg_data combined_data =
     (if responded kg_data then
        combined_data
          \<lparr>c_sources_consulted := c_sources_consulted combined_data @ [''Google Knowledge Graph''],
           c_summary := py_or (dict_get (the kg_data) ''detailed_description'')
                              (dict_get (the kg_data) ''description''),
           c_description := dict_get (the kg_data) ''description'',
           c_url := dict_get (the kg_data) ''url'',
           c_image_url := Some (dict_get (the kg_data) ''image_url''),
           c_confidence := ''very high'',
           c_kg_confidence_score := Some (dict_get_default (the kg_data) ''confidence'' (PInt 0))\<rparr>
      else combined_data)"

definition parallel_dbpedia :: "pydict option \<Rightarrow> combined_data \<Rightarrow> py_error + combined_data" where
  "parallel_dbpedia dbpedia_data combined_data =
     (if responded dbpedia_data then
        (let c = combined_data
                   \<lparr>c_sources_consulted := c_sources_consulted combined_data @ [''DBpedia'']\<rparr>
         in bind_result
              (if \<not> truthy (c_summary c) then
                 bind_result (py_slice_to 500 (dict_get_default (the dbpedia_data) ''abstract'' (PStr [])))
                   (\<lambda>abstract. Inr (c\<lparr>c_summary := abstract\<rparr>))
               else Inr c)
              (\<lambda>c. Inr (c\<lparr>c_dbpedia_uri := Some (dict_get (the dbpedia_data) ''resource_uri''),
                         c_confidence := (if c_confidence c = ''low'' then ''high''
                                          else c_confidence c)\<rparr>)))
      else Inr combined_data)"

definition parallel_wikidata :: "pydict option \<Rightarrow> combined_data \<Rightarrow> combined_data" where
  "parallel_wikidata wikidata_data combined_data =
     (if responded wikidata_data then
        (let c = combined_data
                   \<lparr>c_sources_consulted := c_sources_consulted combined_data @ [''Wikidata'']\<rparr>;
             c = (if \<not> truthy (c_description c)
                  then c\<lparr>c_description := dict_get (the wikidata_data) ''description''\<rparr>
                  else c);
             c = (if \<not> truthy (c_url c) \<and> truthy (dict_get (the wikidata_data) ''wikipedia_url'')
                  then c\<lparr>c_url := dict_get (the wikidata_data) ''wikipedia_url''\<rparr>
                  else c)
         in c\<lparr>c_wikidata_id := Some (dict_get (the wikidata_data) ''wikidata_id''),
              c_confidence := (if c_confidence c = ''low'' then ''medium'' else c_confidence c)\<rparr>)
      else combined_data)"

definition parallel_openlibrary :: "pydict option \<Rightarrow> combined_data \<Rightarrow> combined_data" where
  "parallel_openlibrary ol_data combined_data =
     (if responded ol_data then
        combined_data
          \<lparr>c_sources_consulted := c_sources_consulted combined_data @ [''OpenLibrary''],
           c_literary_info := ol_data,
           c_confidence := (if c_confidence combined_data = ''low'' then ''medium''
                            else c_confidence combined_data)\<rparr>
      else combined_data)"

definition parallel_confidence :: "combined_data \<Rightarrow> combined_data" where
  "parallel_confidence combined_data =
     (let num_sources = length (c_sources_consulted combined_data);
          c = (if num_sources \<ge> 3 then combined_data\<lparr>c_confidence := ''very high (cross-verified)''\<rparr>
               else if num_sources = 2 then combined_data\<lparr>c_confidence := ''high (verified)''\<rparr>
               else if num_sources = 1
                       \<and> ''Google Knowledge Graph'' \<in> set (c_sources_consulted combined_data)
                    then combined_data\<lparr>c_confidence := ''high''\<rparr>
               else combined_data)
      in if num_sources = 0
         then c\<lparr>c_summary := PStr ''No information found in authoritative sources'',
                 c_confidence := ''none''\<rparr>
         else c)"

definition process_results_parallel ::
  "(string \<rightharpoonup> pydict option) \<Rightarrow> combined_data \<Rightarrow> py_error + combined_data" where
  "process_results_parallel results combined_data =
     bind_result
       (parallel_dbpedia (results_get results ''dbpedia'')
          (parallel_kg (results_get results ''kg'') combined_data))
       (\<lambda>combined_data.
          Inr (parallel_confidence
                 (parallel_openlibrary (results_get results ''openlibrary'')
                    (parallel_wikidata (results_get results ''wikidata'') combined_data))))"

definition get_comprehensive_info_parallel ::
  "world \<Rightarrow> string list \<Rightarrow> timestamp \<Rightarrow> string \<Rightarrow> string \<Rightarrow> py_error + combined_data" where
  "get_comprehensive_info_parallel w completion_order now entity_name entity_type =
     (let combined_data = new_combined_data entity_name entity_type now;
          tasks = [(''kg'', fetch_kg w entity_name entity_type),
                   (''dbpedia'', fetch_dbpedia w entity_name),
                   (''wikidata'', fetch_wikidata w entity_name)]
                  @ (if wants_openlibrary entity_name entity_type
                     then [(''openlibrary'', fetch_openlibrary w entity_name)] else []);
          results = collect_results tasks completion_order
      in process_results_parallel results combined_data)"

text \<open>
  Lines 666 to 727, sequential mode: each block calls its adapter and merges what it
  returned before the next adapter is called.
\<close>

definition sequential_kg :: "world \<Rightarrow> string \<Rightarrow> string \<Rightarrow> combined_data \<Rightarrow> combined_data" where
  "sequential_kg w entity_name entity_type combined_data =
     (case get_knowledge_graph_info w entity_name entity_type of
        None \<Rightarrow> combined_data
      | Some kg_data \<Rightarrow>
          if kg_data = [] then combined_data
          else combined_data
                 \<lparr>c_sources_consulted := c_sources_consulted combined_data @ [''Google Knowledge Graph''],
                  c_summary := py_or (dict_get kg_data ''detailed_description'')
                                     (dict_get kg_data ''description''),
                  c_description := dict_get kg_data ''description'',
                  c_url := dict_get kg_data ''url'',
                  c_image_url := Some (dict_get kg_data ''image_url''),
                  c_confidence := ''very high'',
                  c_kg_confidence_score := Some (dict_get_default kg_data ''confidence'' (PInt 0))\<rparr>)"

definition sequential_dbpedia :: "world \<Rightarrow> string \<Rightarrow> combined_data \<Rightarrow> py_error + combined_data" where
  "sequential_dbpedia w entity_name combined_data =
     (case get_dbpedia_info w entity_name of
        None \<Rightarrow> Inr combined_data
      | Some dbpedia_data \<Rightarrow>
          if dbpedia_data = [] then Inr combined_data
          else (let c = combined_data
                          \<lparr>c_sources_consulted := c_sources_consulted combined_data @ [''DBpedia'']\<rparr>
                in case (if \<not> truthy (c_summary c)
                         then (case py_slice_to 500 (dict_get_default dbpedia_data ''abstract'' (PStr [])) of
                                 Inl e \<Rightarrow> Inl e
                               | Inr abstract \<Rightarrow> Inr (c\<lparr>c_summary := abstract\<rparr>))
                         else Inr c) of
                     Inl e \<Rightarrow> Inl e
                   | Inr c \<Rightarrow>
                       Inr (c\<lparr>c_dbpedia_uri := Some (dict_get dbpedia_data ''resource_uri''),
                              c_confidence := (if c_confidence c = ''low'' then ''high''
                                               else c_confidence c)\<rparr>)))"

definition sequential_wikidata :: "world \<Rightarrow> string \<Rightarrow> combined_data \<Rightarrow> combined_data" where
  "sequential_wikidata w entity_name combined_data =
     (case get_wikidata_enhanced w entity_name of
        None \<Rightarrow> combined_data
      | Some wikidata_data \<Rightarrow>
          if wikidata_data = [] then combined_data
          else (let c = combined_data
                          \<lparr>c_sources_consulted := c_sources_consulted combined_data @ [''Wikidata'']\<rparr>;
                    c = (if \<not> truthy (c_description c)
                         then c\<lparr>c_description := dict_get wikidata_data ''description''\<rparr> else c);
                    c = (if \<not> truthy (c_url c) \<and> truthy (dict_get wikidata_data ''wikipedia_url'')
                         then c\<lparr>c_url := dict_get wikidata_data ''wikipedia_url''\<rparr> else c)
                in c\<lparr>c_wikidata_id := Some (dict_get wikidata_data ''wikidata_id''),
                     c_confidence := (if c_confidence c = ''low'' then ''medium''
                                      else c_confidence c)\<rparr>))"

definition sequential_openlibrary ::
  "world \<Rightarrow> string \<Rightarrow> string \<Rightarrow> combined_data \<Rightarrow> combined_data" where
  "sequential_openlibrary w entity_name entity_type combined_data =
     (if entity_type = ''WORK_OF_ART''
         \<or> list_ex (\<lambda>keyword. py_in keyword (lower entity_name)) [''book'', ''novel'', ''play'']
      then (case get_openlibrary_info w entity_name of
              None \<Rightarrow> combined_data
            | Some ol_data \<Rightarrow>
                if ol_data = [] then combined_data
                else combined_data
                       \<lparr>c_sources_consulted := c_sources_consulted combined_data @ [''OpenLibrary''],
                        c_literary_info := Some ol_data,
                        c_confidence := (if c_confidence combined_data = ''low'' then ''medium''
                                         else c_confidence combined_data)\<rparr>)
      else combined_data)"

definition sequential_confidence :: "combined_data \<Rightarrow> combined_data" where
  "sequential_confidence combined_data =
     (let num_sources = length (c_sources_consulted combined_data);
          c = (if num_sources \<ge> 3 then combined_data\<lparr>c_confidence := ''very high (cross-verified)''\<rparr>
               else if num_sources = 2 then combined_data\<lparr>c_confidence := ''high (verified)''\<rparr>
               else if num_sources = 1
                       \<and> ''Google Knowledge Graph'' \<in> set (c_sources_consulted combined_data)
                    then combined_data\<lparr>c_confidence := ''high''\<rparr>
               else combined_data)
      in if num_sources = 0
         then c\<lparr>c_summary := PStr ''No information found in authoritative sources'',
                 c_confidence := ''none''\<rparr>
         else c)"

definition get_comprehensive_info_sequential ::
  "world \<Rightarrow> timestamp \<Rightarrow> string \<Rightarrow> string \<Rightarrow> py_error + combined_data" where
  "get_comprehensive_info_sequential w now entity_name entity_type =
     (let combined_data = new_combined_data entity_name entity_type now;
          combined_data = sequential_kg w entity_name entity_type combined_data
      in case sequential_dbpedia w entity_name combined_data of
           Inl e \<Rightarrow> Inl e
         | Inr combined_data \<Rightarrow>
             (let combined_data = sequential_wikidata w entity_name combined_data;
                  combined_data = sequential_openlibrary w entity_name entity_type combined_data
              in Inr (sequential_confidence combined_data)))"

text \<open>
  \<open>get_comprehensive_info\<close>: the dispatch on \<open>parallel\<close>. Nothing in it or in the two
  paths inspects \<open>entity_name\<close> before the providers are queried.
\<close>

definition get_comprehensive_info ::
  "world \<Rightarrow> string list \<Rightarrow> timestamp \<Rightarrow> string \<Rightarrow> string \<Rightarrow> bool \<Rightarrow> py_error + combined_data" where
  "get_comprehensive_info w completion_order now entity_name entity_type parallel =
     (if parallel then get_comprehensive_info_parallel w completion_order now entity_name entity_type
      else get_comprehensive_info_sequential w now entity_name entity_type)"

section \<open>The persistent store\<close>

text \<open>
  Both cache tables are reached through the Supabase client. One \<open>.execute()\<close> either
  returns or raises (the store is unreachable); a call that raises leaves the table as
  it was. A table is the list of its rows.
\<close>

datatype call = Succeeds | Raises

text \<open>\<open>d[k]\<close> on a dict: a KeyError when the key is missing.\<close>

definition dict_index :: "pydict \<Rightarrow> string \<Rightarrow> py_error + pyval" where
  "dict_index d k = (case map_of d k of None \<Rightarrow> Inl KeyError | Some v \<Rightarrow> Inr v)"

subsection \<open>Entity cache\<close>

record entity_row =
  er_entity_name :: string
  er_entity_type :: string
  er_summary :: pyval
  er_url :: pyval
  er_categories :: pyval
  er_cultural_significance :: pyval
  er_wikidata :: pyval
  er_source :: pyval
  er_created_at :: timestamp

definition same_entity :: "string \<Rightarrow> string \<Rightarrow> entity_row \<Rightarrow> bool" where
  "same_entity entity_name entity_type r =
     (er_entity_name r = entity_name \<and> er_entity_type r = entity_type)"

text \<open>
  \<open>get_cached_entity\<close>: \<open>select('*').eq('entity_name', ..).eq('entity_type', ..)\<close>, then
  \<open>response.data[0] if response.data else None\<close>; \<open>None\<close> when the query raises.
\<close>

definition get_cached_entity :: "call \<Rightarrow> entity_row list \<Rightarrow> string \<Rightarrow> string \<Rightarrow> entity_row option" where
  "get_cached_entity select_call table entity_name entity_type =
     (case select_call of
        Raises \<Rightarrow> None
      | Succeeds \<Rightarrow>
          (case filter (same_entity entity_name entity_type) table of
             [] \<Rightarrow> None
           | r # _ \<Rightarrow> Some r))"

text \<open>\<open>upsert(entity_data, on_conflict='entity_name,entity_type')\<close>\<close>

definition upsert_entity :: "entity_row \<Rightarrow> entity_row list \<Rightarrow> entity_row list" where
  "upsert_entity entity_data table =
     (if list_ex (same_entity (er_entity_name entity_data) (er_entity_type entity_data)) table
      then map (\<lambda>r. if same_entity (er_entity_name entity_data) (er_entity_type entity_data) r
                     then entity_data else r) table
      else table @ [entity_data])"

definition save_entity_cache ::
  "call \<Rightarrow> entity_row list \<Rightarrow> entity_row \<Rightarrow> entity_row list \<times> entity_row option" where
  "save_entity_cache upsert_call table entity_data =
     (case upsert_call of
        Raises \<Rightarrow> (table, None)
      | Succeeds \<Rightarrow> (upsert_entity entity_data table, Some entity_data))"

text \<open>
  \<open>NLPEnrichmentService.enrich_entity\<close> of nlp_service.py. \<open>wikipedia_enrich\<close> is
  \<open>wikipedia_service.enrich_entity\<close>, the live lookup; the result says whether the row
  of the cache or the dict of the live lookup is returned.
\<close>

datatype enrichment = FromCache entity_row | Live pydict

definition enrich_entity ::
  "(string \<Rightarrow> string \<Rightarrow> pydict) \<Rightarrow> call \<Rightarrow> call \<Rightarrow> timestamp \<Rightarrow> entity_row list
     \<Rightarrow> string \<Rightarrow> string \<Rightarrow> bool \<Rightarrow> entity_row list \<times> enrichment" where
  "enrich_entity wikipedia_enrich select_call upsert_call now table entity_text entity_type use_cache =
     (case (if use_cache then get_cached_entity select_call table entity_text entity_type else None) of
        Some cached \<Rightarrow> (table, FromCache cached)
      | None \<Rightarrow>
          (let enrichment = wikipedia_enrich entity_text entity_type
           in if truthy (dict_get enrichment ''summary'') then
                (let cache_data =
                       \<lparr>er_entity_name = entity_text,
                        er_entity_type = entity_type,
                        er_summary = dict_get enrichment ''summary'',
                        er_url = dict_get enrichment ''url'',
                        er_categories = dict_get_default enrichment ''categories'' (PList []),
                        er_cultural_significance =
                          dict_get_default enrichment ''cultural_significance'' (PStr ''general''),
                        er_wikidata = dict_get enrichment ''wikidata'',
                        er_source = dict_get_default enrichment ''source'' (PStr ''Wikipedia''),
                        er_created_at = now\<rparr>
                 in (fst (save_entity_cache upsert_call table cache_data), Live enrichment))
              else (table, Live enrichment)))"

subsection \<open>Analysis cache\<close>

text \<open>
  A row of \<open>analysis_cache\<close>: the columns that \<open>save_analysis_cache\<close> writes, and the
  \<open>id\<close> the database gives the row. \<open>hit_count\<close> is an integer column.
\<close>

record cache_data =
  cd_text_hash :: string
  cd_language :: string
  cd_original_text :: string
  cd_cultural_origin :: pyval
  cd_cross_cultural_connections :: pyval
  cd_modern_analogy :: pyval
  cd_timeline_events :: pyval
  cd_geographic_locations :: pyval
  cd_key_concepts :: pyval
  cd_external_resources :: pyval
  cd_hit_count :: int
  cd_created_at :: timestamp
  cd_last_accessed :: timestamp

record cache_row =
  row_id :: nat
  row_data :: cache_data

text \<open>The dict that a cache hit returns.\<close>

record analysis =
  a_cultural_origin :: pyval
  a_cross_cultural_connections :: pyval
  a_modern_analogy :: pyval
  a_timeline_events :: pyval
  a_geographic_locations :: pyval
  a_key_concepts :: pyval
  a_external_resources :: pyval

text \<open>
  The query of \<open>get_cached_analysis\<close>:
  \<open>.eq('text_hash', text_hash).eq('language', language).gt('created_at', cutoff_date)\<close>
\<close>

definition select_analysis :: "string \<Rightarrow> string \<Rightarrow> timestamp \<Rightarrow> cache_row list \<Rightarrow> cache_row list" where
  "select_analysis text_hash language cutoff_date table =
     filter (\<lambda>r. cd_text_hash (row_data r) = text_hash
                 \<and> cd_language (row_data r) = language
                 \<and> cd_created_at (row_data r) > cutoff_date) table"

text \<open>
  \<open>get_cached_analysis\<close>. The stored procedure behind
  \<open>rpc('increment_cache_hit', {'cache_id': ..})\<close> is not part of the sources and enters as
  the parameter \<open>increment_cache_hit\<close>; \<open>rpc_call\<close> says whether that call returns.
\<close>

definition get_cached_analysis ::
  "(string \<Rightarrow> string) \<Rightarrow> (nat \<Rightarrow> cache_row list \<Rightarrow> cache_row list) \<Rightarrow> call \<Rightarrow> call \<Rightarrow> timestamp
     \<Rightarrow> cache_row list \<Rightarrow> string \<Rightarrow> string \<Rightarrow> cache_row list \<times> analysis option" where
  "get_cached_analysis sha256 increment_cache_hit select_call rpc_call now table text language =
     (let text_hash = generate_text_hash sha256 text language;
          cutoff_date = now - days 30
      in case select_call of
           Raises \<Rightarrow> (table, None)
         | Succeeds \<Rightarrow>
             (case select_analysis text_hash language cutoff_date table of
                [] \<Rightarrow> (table, None)
              | cached_entry # _ \<Rightarrow>
                  (let table' = (case rpc_call of
                                   Succeeds \<Rightarrow> increment_cache_hit (row_id cached_entry) table
                                 | Raises \<Rightarrow> table)
                   in (table',
                       Some \<lparr>a_cultural_origin = cd_cultural_origin (row_data cached_entry),
                             a_cross_cultural_connections =
                               cd_cross_cultural_connections (row_data cached_entry),
                             a_modern_analogy = cd_modern_analogy (row_data cached_entry),
                             a_timeline_events = cd_timeline_events (row_data cached_entry),
                             a_geographic_locations = cd_geographic_locations (row_data cached_entry),
                             a_key_concepts = cd_key_concepts (row_data cached_entry),
                             a_external_resources = cd_external_resources (row_data cached_entry)\<rparr>))))"

text \<open>
  \<open>upsert(cache_data, on_conflict='text_hash,language')\<close>: a row with the same key takes
  every column of the payload and keeps its id; otherwise a new row is added.
\<close>

definition same_key :: "cache_data \<Rightarrow> cache_row \<Rightarrow> bool" where
  "same_key d r = (cd_text_hash (row_data r) = cd_text_hash d \<and> cd_language (row_data r) = cd_language d)"

definition fresh_id :: "cache_row list \<Rightarrow> nat" where
  "fresh_id table = Suc (fold max (map row_id table) 0)"

definition upsert_analysis :: "cache_data \<Rightarrow> cache_row list \<Rightarrow> cache_row list" where
  "upsert_analysis d table =
     (if list_ex (same_key d) table
      then map (\<lambda>r. if same_key d r then r\<lparr>row_data := d\<rparr> else r) table
      else table @ [\<lparr>row_id = fresh_id table, row_data = d\<rparr>])"

text \<open>
  \<open>save_analysis_cache\<close>. \<open>now_created\<close> and \<open>now_accessed\<close> are the two readings of
  \<open>datetime.utcnow()\<close> in the dict literal. A missing key of \<open>analysis_result\<close> and a
  failing upsert both end in the \<open>except\<close> that returns \<open>None\<close>.
\<close>

definition save_analysis_cache ::
  "(string \<Rightarrow> string) \<Rightarrow> call \<Rightarrow> timestamp \<Rightarrow> timestamp \<Rightarrow> cache_row list
     \<Rightarrow> string \<Rightarrow> string \<Rightarrow> pydict \<Rightarrow> cache_row list \<times> cache_row option" where
  "save_analysis_cache sha256 upsert_call now_created now_accessed table text language analysis_result =
     (let text_hash = generate_text_hash sha256 text language
      in case bind_result (dict_index analysis_result ''cultural_origin'') (\<lambda>cultural_origin.
              bind_result (dict_index analysis_result ''cross_cultural_connections'') (\<lambda>connections.
              bind_result (dict_index analysis_result ''modern_analogy'') (\<lambda>modern_analogy.
                Inr \<lparr>cd_text_hash = text_hash,
                     cd_language = language,
                     cd_original_text = take 5000 text,
                     cd_cultural_origin = cultural_origin,
                     cd_cross_cultural_connections = connections,
                     cd_modern_analogy = modern_analogy,
                     cd_timeline_events = dict_get_default analysis_result ''timeline_events'' (PList []),
                     cd_geographic_locations =
                       dict_get_default analysis_result ''geographic_locations'' (PList []),
                     cd_key_concepts = dict_get_default analysis_result ''key_concepts'' (PList []),
                     cd_external_resources =
                       dict_get_default analysis_result ''external_resources'' (PDict []),
                     cd_hit_count = 0,
                     cd_created_at = now_created,
                     cd_last_accessed = now_accessed\<rparr>))) of
           Inl e \<Rightarrow> (table, None)
         | Inr cache_data \<Rightarrow>
             (case upsert_call of
                Raises \<Rightarrow> (table, None)
              | Succeeds \<Rightarrow>
                  (let table' = upsert_analysis cache_data table
                   in (table', find (same_key cache_data) table'))))"

section \<open>Notions used to state the claims about the aggregator\<close>

text \<open>
  The merge as a function of what the four adapters returned: the blocks of the merge
  applied to given adapter results. Both modes are shown below to compute it.
\<close>

definition merge_partial_records ::
  "pydict option \<Rightarrow> pydict option \<Rightarrow> pydict option \<Rightarrow> pydict option \<Rightarrow> combined_data
     \<Rightarrow> py_error + combined_data" where
  "merge_partial_records kg db wd ol c0 =
     bind_result (parallel_dbpedia db (parallel_kg kg c0))
       (\<lambda>c. Inr (parallel_confidence (parallel_openlibrary ol (parallel_wikidata wd c))))"

text \<open>The providers that responded, in priority order.\<close>

definition sources_of ::
  "pydict option \<Rightarrow> pydict option \<Rightarrow> pydict option \<Rightarrow> pydict option \<Rightarrow> string list" where
  "sources_of kg db wd ol =
     (if responded kg then [''Google Knowledge Graph''] else [])
     @ (if responded db then [''DBpedia''] else [])
     @ (if responded wd then [''Wikidata''] else [])
     @ (if responded ol then [''OpenLibrary''] else [])"

text \<open>
  The confidence table as the specification words it: a single source gives
  \<open>high\<close> when it is the Knowledge Graph and \<open>medium\<close> otherwise.
\<close>

definition spec_confidence_tier :: "string list \<Rightarrow> string" where
  "spec_confidence_tier sources =
     (if length sources \<ge> 3 then ''very high (cross-verified)''
      else if length sources = 2 then ''high (verified)''
      else if sources = [''Google Knowledge Graph''] then ''high''
      else if length sources = 1 then ''medium''
      else ''none'')"

text \<open>The table that the code computes: DBpedia alone is \<open>high\<close> as well.\<close>

definition confidence_tier :: "string list \<Rightarrow> string" where
  "confidence_tier sources =
     (if length sources \<ge> 3 then ''very high (cross-verified)''
      else if length sources = 2 then ''high (verified)''
      else if sources = [''Google Knowledge Graph''] \<or> sources = [''DBpedia''] then ''high''
      else if length sources = 1 then ''medium''
      else ''none'')"

text \<open>
  In parallel mode every submitted future completes: the keys of all submitted tasks
  occur in the completion order.
\<close>

definition every_task_completes :: "string list \<Rightarrow> string \<Rightarrow> string \<Rightarrow> bool" where
  "every_task_completes completion_order entity_name entity_type =
     (''kg'' \<in> set completion_order \<and> ''dbpedia'' \<in> set completion_order
      \<and> ''wikidata'' \<in> set completion_order
      \<and> (if wants_openlibrary entity_name entity_type then ''openlibrary'' \<in> set completion_order
         else True))"

text \<open>The values on which \<open>x[:500]\<close> is defined.\<close>

definition sliceable :: "pyval \<Rightarrow> bool" where
  "sliceable v = (case v of PStr s \<Rightarrow> True | PList xs \<Rightarrow> True | _ \<Rightarrow> False)"

definition abstract_sliceable :: "world \<Rightarrow> string \<Rightarrow> bool" where
  "abstract_sliceable w entity_name =
     (case get_dbpedia_info w entity_name of
        None \<Rightarrow> True
      | Some dbpedia_data \<Rightarrow> sliceable (dict_get_default dbpedia_data ''abstract'' (PStr [])))"

text \<open>
  Where the merged fields come from. The description is the Knowledge Graph's, else
  Wikidata's. The URL is the Knowledge Graph's, else the Wikipedia URL that Wikidata
  holds. The image URL is the Knowledge Graph's. \<open>kg_summary\<close> is what the Knowledge
  Graph block leaves in \<open>summary\<close>.
\<close>

definition kg_summary :: "pydict option \<Rightarrow> pyval" where
  "kg_summary kg = (if responded kg then py_or (dict_get (the kg) ''detailed_description'')
                                               (dict_get (the kg) ''description'') else PNone)"

text \<open>
  The summary as the first non-empty long-form text in priority order (the Knowledge
  Graph's detailed description, then the first 500 characters of the DBpedia abstract)
  and, when neither is non-empty, the Knowledge Graph's description; when that is empty
  too, the summary is what is left: the slice of the empty abstract when DBpedia
  responded, the Knowledge Graph's empty description otherwise. Wikidata and OpenLibrary
  do not occur in it.
\<close>

definition merged_summary :: "pydict option \<Rightarrow> pydict option \<Rightarrow> py_error + pyval" where
  "merged_summary kg db =
     (let detailed = (if responded kg then dict_get (the kg) ''detailed_description'' else PNone);
          description = (if responded kg then dict_get (the kg) ''description'' else PNone)
      in if truthy detailed then Inr detailed
         else if responded db \<and> truthy (dict_get_default (the db) ''abstract'' (PStr []))
              then py_slice_to 500 (dict_get_default (the db) ''abstract'' (PStr []))
         else if truthy description then Inr description
         else if responded db then py_slice_to 500 (dict_get_default (the db) ''abstract'' (PStr []))
         else Inr description)"

text \<open>
  The one case set aside: the Knowledge Graph gave a description and no detailed
  description while DBpedia gave a non-empty abstract. The comment of the DBpedia block
  reads "Use DBpedia abstract if KG didn't provide detailed description"; the block
  tests \<open>summary\<close>, which the description has filled by then.
\<close>

definition description_shadows_abstract :: "pydict option \<Rightarrow> pydict option \<Rightarrow> bool" where
  "description_shadows_abstract kg db =
     (responded kg \<and> responded db
      \<and> \<not> truthy (dict_get (the kg) ''detailed_description'')
      \<and> truthy (dict_get (the kg) ''description'')
      \<and> truthy (dict_get_default (the db) ''abstract'' (PStr [])))"

text \<open>The summary of a result, when there is one.\<close>

definition summary_of :: "py_error + combined_data \<Rightarrow> pyval option" where
  "summary_of x = (case x of Inl e \<Rightarrow> None | Inr r \<Rightarrow> Some (c_summary r))"

definition merged_description :: "pydict option \<Rightarrow> pydict option \<Rightarrow> pyval" where
  "merged_description kg wd =
     (let d = (if responded kg then dict_get (the kg) ''description'' else PNone)
      in if responded wd \<and> \<not> truthy d then dict_get (the wd) ''description'' else d)"

definition merged_url :: "pydict option \<Rightarrow> pydict option \<Rightarrow> pyval" where
  "merged_url kg wd =
     (let u = (if responded kg then dict_get (the kg) ''url'' else PNone)
      in if responded wd \<and> \<not> truthy u \<and> truthy (dict_get (the wd) ''wikipedia_url'')
         then dict_get (the wd) ''wikipedia_url'' else u)"

definition merged_image_url :: "pydict option \<Rightarrow> pyval option" where
  "merged_image_url kg = (if responded kg then Some (dict_get (the kg) ''image_url'') else None)"

text \<open>A result with the time of the lookup set aside.\<close>

definition forget_time :: "py_error + combined_data \<Rightarrow> py_error + combined_data" where
  "forget_time x = (case x of Inl e \<Rightarrow> Inl e | Inr r \<Rightarrow> Inr (r\<lparr>c_retrieved_at := 0\<rparr>))"

section \<open>Example providers\<close>

text \<open>Only DBpedia answers, with the record that both modes then build.\<close>

definition dbpedia_only_world :: world where
  "dbpedia_only_world =
     \<lparr>kg_api_key = None,
      kg_reply = (\<lambda>entity_name entity_type. NoData),
      dbpedia_reply = (\<lambda>entity_name.
         Found [(''entity_name'', PStr entity_name),
                (''abstract'', PStr ''English mathematician and writer''),
                (''resource_uri'',
                 PStr (''http://dbpedia.org/resource/'' @ replace_space_underscore entity_name)),
                (''source'', PStr ''DBpedia''),
                (''retrieved_at'', PStr ''2025-01-01T00:00:00'')]),
      wikidata_reply = (\<lambda>entity_name. Fault),
      openlibrary_reply = (\<lambda>entity_name. NoData)\<rparr>"

definition lovelace_record :: combined_data where
  "lovelace_record =
     \<lparr>c_entity_name = ''Ada Lovelace'', c_entity_type = ''PERSON'',
      c_summary = PStr ''English mathematician and writer'',
      c_description = PNone, c_url = PNone, c_sources_consulted = [''DBpedia''],
      c_confidence = ''high'', c_retrieved_at = 0, c_image_url = None,
      c_kg_confidence_score = None,
      c_dbpedia_uri = Some (PStr ''http://dbpedia.org/resource/Ada_Lovelace''),
      c_wikidata_id = None, c_literary_info = None\<rparr>"

text \<open>Every provider call raises.\<close>

definition silent_world :: world where
  "silent_world =
     \<lparr>kg_api_key = Some ''key'',
      kg_reply = (\<lambda>entity_name entity_type. Fault),
      dbpedia_reply = (\<lambda>entity_name. Fault),
      wikidata_reply = (\<lambda>entity_name. Fault),
      openlibrary_reply = (\<lambda>entity_name. Fault)\<rparr>"

text \<open>DBpedia and OpenLibrary answer; there is no Knowledge Graph key.\<close>

definition dbpedia_openlibrary_world :: world where
  "dbpedia_openlibrary_world =
     \<lparr>kg_api_key = None,
      kg_reply = (\<lambda>entity_name entity_type. NoData),
      dbpedia_reply = (\<lambda>entity_name.
         Found [(''entity_name'', PStr entity_name),
                (''abstract'', PStr ''Hamlet is a tragedy written by William Shakespeare''),
                (''resource_uri'',
                 PStr (''http://dbpedia.org/resource/'' @ replace_space_underscore entity_name)),
                (''source'', PStr ''DBpedia''),
                (''retrieved_at'', PStr ''2025-01-01T00:00:00'')]),
      wikidata_reply = (\<lambda>entity_name. NoData),
      openlibrary_reply = (\<lambda>entity_name.
         Found [(''title'', PStr ''Hamlet''),
                (''author'', PList [PStr ''William Shakespeare'']),
                (''first_publish_year'', PInt 1603),
                (''subject'', PList [PStr ''Tragedy'']),
                (''isbn'', PList []),
                (''cover_url'', PStr ''https://covers.openlibrary.org/b/id/42-M.jpg''),
                (''url'', PStr ''https://openlibrary.org/works/OL1W''),
                (''source'', PStr ''OpenLibrary''),
                (''retrieved_at'', PStr ''2025-01-01T00:00:00'')])\<rparr>"

text \<open>Only Wikidata answers, with a description.\<close>

definition wikidata_only_world :: world where
  "wikidata_only_world =
     \<lparr>kg_api_key = None,
      kg_reply = (\<lambda>entity_name entity_type. NoData),
      dbpedia_reply = (\<lambda>entity_name. NoData),
      wikidata_reply = (\<lambda>entity_name.
         Found [(''entity_name'', PStr entity_name),
                (''wikidata_id'', PStr ''Q1001''),
                (''label'', PStr ''Mahatma Gandhi''),
                (''description'', PStr ''Indian independence activist''),
                (''url'', PStr ''https://www.wikidata.org/wiki/Q1001''),
                (''wikipedia_url'', PStr ''https://en.wikipedia.org/wiki/Mahatma_Gandhi''),
                (''source'', PStr ''Wikidata Enhanced''),
                (''retrieved_at'', PStr ''2025-01-01T00:00:00'')]),
      openlibrary_reply = (\<lambda>entity_name. NoData)\<rparr>"

text \<open>
  The Knowledge Graph and Wikidata answer and DBpedia times out, with the record that
  both modes then build.
\<close>

definition gandhi_world :: world where
  "gandhi_world =
     \<lparr>kg_api_key = Some ''key'',
      kg_reply = (\<lambda>entity_name entity_type.
         Found [(''entity_name'', PStr ''Mahatma Gandhi''),
                (''description'', PStr ''Indian lawyer''),
                (''detailed_description'', PStr []),
                (''url'', PStr []),
                (''image_url'', PStr []),
                (''types'', PList [PStr ''Person'', PStr ''Thing'']),
                (''source'', PStr ''Google Knowledge Graph''),
                (''confidence'', PInt 2100),
                (''retrieved_at'', PStr ''2025-01-01T00:00:00'')]),
      dbpedia_reply = (\<lambda>entity_name. Fault),
      wikidata_reply = (\<lambda>entity_name.
         Found [(''entity_name'', PStr entity_name),
                (''wikidata_id'', PStr ''Q1001''),
                (''label'', PStr ''Mahatma Gandhi''),
                (''description'', PStr ''Indian independence activist''),
                (''url'', PStr ''https://www.wikidata.org/wiki/Q1001''),
                (''wikipedia_url'', PStr ''https://en.wikipedia.org/wiki/Mahatma_Gandhi''),
                (''source'', PStr ''Wikidata Enhanced''),
                (''retrieved_at'', PStr ''2025-01-01T00:00:00'')]),
      openlibrary_reply = (\<lambda>entity_name. NoData)\<rparr>"

definition gandhi_record :: combined_data where
  "gandhi_record =
     \<lparr>c_entity_name = ''Mahatma Gandhi'', c_entity_type = ''PERSON'',
      c_summary = PStr ''Indian lawyer'', c_description = PStr ''Indian lawyer'',
      c_url = PStr ''https://en.wikipedia.org/wiki/Mahatma_Gandhi'',
      c_sources_consulted = [''Google Knowledge Graph'', ''Wikidata''],
      c_confidence = ''high (verified)'', c_retrieved_at = 0,
      c_image_url = Some (PStr []), c_kg_confidence_score = Some (PInt 2100),
      c_dbpedia_uri = None, c_wikidata_id = Some (PStr ''Q1001''), c_literary_info = None\<rparr>"

text \<open>DBpedia answers with a binding whose abstract value is \<open>null\<close>.\<close>

definition null_abstract_world :: world where
  "null_abstract_world =
     \<lparr>kg_api_key = None,
      kg_reply = (\<lambda>entity_name entity_type. NoData),
      dbpedia_reply = (\<lambda>entity_name.
         Found [(''entity_name'', PStr entity_name),
                (''abstract'', PNone),
                (''resource_uri'',
                 PStr (''http://dbpedia.org/resource/'' @ replace_space_underscore entity_name)),
                (''source'', PStr ''DBpedia''),
                (''retrieved_at'', PStr ''2025-01-01T00:00:00'')]),
      wikidata_reply = (\<lambda>entity_name. NoData),
      openlibrary_reply = (\<lambda>entity_name. NoData)\<rparr>"

text \<open>
  The Knowledge Graph answers with a description and no detailed description, and
  DBpedia answers with an abstract.
\<close>

definition description_and_abstract_world :: world where
  "description_and_abstract_world =
     \<lparr>kg_api_key = Some ''key'',
      kg_reply = (\<lambda>entity_name entity_type.
         Found [(''entity_name'', PStr ''Mahatma Gandhi''),
                (''description'', PStr ''Indian lawyer''),
                (''detailed_description'', PStr []),
                (''url'', PStr []),
                (''image_url'', PStr []),
                (''types'', PList [PStr ''Person'', PStr ''Thing'']),
                (''source'', PStr ''Google Knowledge Graph''),
                (''confidence'', PInt 2100),
                (''retrieved_at'', PStr ''2025-01-01T00:00:00'')]),
      dbpedia_reply = (\<lambda>entity_name.
         Found [(''entity_name'', PStr entity_name),
                (''abstract'', PStr ''Mohandas Karamchand Gandhi was an Indian lawyer and political ethicist''),
                (''resource_uri'',
                 PStr (''http://dbpedia.org/resource/'' @ replace_space_underscore entity_name)),
                (''source'', PStr ''DBpedia''),
                (''retrieved_at'', PStr ''2025-01-01T00:00:00'')]),
      wikidata_reply = (\<lambda>entity_name. NoData),
      openlibrary_reply = (\<lambda>entity_name. NoData)\<rparr>"

section \<open>Notions used to state the claims about the caches\<close>

text \<open>A row is stored for a text and a language; it is live while younger than 30 days.\<close>

definition stored_for :: "(string \<Rightarrow> string) \<Rightarrow> string \<Rightarrow> string \<Rightarrow> cache_row \<Rightarrow> bool" where
  "stored_for sha256 text language r =
     (cd_text_hash (row_data r) = generate_text_hash sha256 text language
      \<and> cd_language (row_data r) = language)"

definition live_entry ::
  "(string \<Rightarrow> string) \<Rightarrow> timestamp \<Rightarrow> string \<Rightarrow> string \<Rightarrow> cache_row \<Rightarrow> bool" where
  "live_entry sha256 now text language r =
     (stored_for sha256 text language r \<and> cd_created_at (row_data r) > now - days 30)"

text \<open>The analysis fields of a row.\<close>

definition stored_analysis :: "cache_row \<Rightarrow> analysis" where
  "stored_analysis r =
     \<lparr>a_cultural_origin = cd_cultural_origin (row_data r),
      a_cross_cultural_connections = cd_cross_cultural_connections (row_data r),
      a_modern_analogy = cd_modern_analogy (row_data r),
      a_timeline_events = cd_timeline_events (row_data r),
      a_geographic_locations = cd_geographic_locations (row_data r),
      a_key_concepts = cd_key_concepts (row_data r),
      a_external_resources = cd_external_resources (row_data r)\<rparr>"

text \<open>
  Modelled from the spec: the stored procedure \<open>increment_cache_hit\<close> of the database,
  which is not among the sources. The specification says that a cache hit increments
  \<open>hit_count\<close> of the entry by exactly one; this is that update, on the row with the
  given id. The claims are proved for every procedure; this one instantiates them.
\<close>

definition increment_cache_hit :: "nat \<Rightarrow> cache_row list \<Rightarrow> cache_row list" where
  "increment_cache_hit cache_id table =
     map (\<lambda>r. if row_id r = cache_id
               then r\<lparr>row_data := (row_data r)\<lparr>cd_hit_count := cd_hit_count (row_data r) + 1\<rparr>\<rparr>
               else r) table"

text \<open>The row that \<open>enrich_entity\<close> sends to the entity cache.\<close>

definition entity_cache_data :: "timestamp \<Rightarrow> string \<Rightarrow> string \<Rightarrow> pydict \<Rightarrow> entity_row" where
  "entity_cache_data now entity_text entity_type enrichment =
     \<lparr>er_entity_name = entity_text,
      er_entity_type = entity_type,
      er_summary = dict_get enrichment ''summary'',
      er_url = dict_get enrichment ''url'',
      er_categories = dict_get_default enrichment ''categories'' (PList []),
      er_cultural_significance =
        dict_get_default enrichment ''cultural_significance'' (PStr ''general''),
      er_wikidata = dict_get enrichment ''wikidata'',
      er_source = dict_get_default enrichment ''source'' (PStr ''Wikipedia''),
      er_created_at = now\<rparr>"

section \<open>Example cache entries\<close>

text \<open>
  An entry for the text "ancient Roman aqueduct" in English, created at the given
  instant and hit the given number of times; the digest is taken to be the identity.
\<close>

definition aqueduct_entry :: "timestamp \<Rightarrow> int \<Rightarrow> cache_row" where
  "aqueduct_entry created hits =
     \<lparr>row_id = 7,
      row_data =
        \<lparr>cd_text_hash = generate_text_hash id ''ancient Roman aqueduct'' ''en'',
         cd_language = ''en'',
         cd_original_text = ''ancient Roman aqueduct'',
         cd_cultural_origin = PStr ''Roman engineering'',
         cd_cross_cultural_connections = PStr ''Persian qanats'',
         cd_modern_analogy = PStr ''a city water main'',
         cd_timeline_events = PList [],
         cd_geographic_locations = PList [],
         cd_key_concepts = PList [PStr ''aqueduct''],
         cd_external_resources = PDict [],
         cd_hit_count = hits,
         cd_created_at = created,
         cd_last_accessed = created\<rparr>\<rparr>"



text \<open>What the live lookup returns when two providers know the entity, and when none does.\<close>

definition found_enrichment :: "string \<Rightarrow> string \<Rightarrow> pydict" where
  "found_enrichment entity_name entity_type =
     [(''entity_name'', PStr entity_name), (''entity_type'', PStr entity_type),
      (''summary'', PStr ''Indian lawyer''),
      (''url'', PStr ''https://en.wikipedia.org/wiki/Mahatma_Gandhi''),
      (''wikidata'', PNone), (''cultural_significance'', PStr ''biographical''),
      (''source'', PStr ''Multi-Source (2 sources)''), (''confidence'', PStr ''high (verified)''),
      (''sources_consulted'', PList [PStr ''Google Knowledge Graph'', PStr ''Wikidata''])]"

definition empty_enrichment :: "string \<Rightarrow> string \<Rightarrow> pydict" where
  "empty_enrichment entity_name entity_type =
     [(''entity_name'', PStr entity_name), (''entity_type'', PStr entity_type),
      (''summary'', PNone), (''url'', PNone), (''wikidata'', PNone),
      (''cultural_significance'', PStr ''unknown''), (''source'', PNone),
      (''confidence'', PStr ''low''), (''sources_consulted'', PList [])]"

section \<open>The text hash on Unicode text\<close>

text \<open>
  A Python \<open>str\<close> is a sequence of code points, and \<open>generate_text_hash\<close> of database.py
  receives any such text. The 8-bit \<open>string\<close> of the first section covers the code points
  below 256 only; here a text is a list of code points, and \<open>str\<close> embeds an 8-bit string.
\<close>

type_synonym unicode = "nat list"

definition str :: "string \<Rightarrow> unicode" where
  "str s = map of_char s"

text \<open>
  The interpreter's Unicode database enters as a parameter: \<open>Py_UNICODE_ISSPACE\<close>,
  \<open>_PyUnicode_ToLowerFull\<close> (one code point may lower to several), \<open>_PyUnicode_IsCased\<close>
  and \<open>_PyUnicode_IsCaseIgnorable\<close>.
\<close>

record unicode_data =
  ud_whitespace :: "nat \<Rightarrow> bool"
  ud_lower_full :: "nat \<Rightarrow> nat list"
  ud_cased :: "nat \<Rightarrow> bool"
  ud_case_ignorable :: "nat \<Rightarrow> bool"

text \<open>\<open>text.strip()\<close>: leading and trailing whitespace is removed.\<close>

definition unicode_strip :: "unicode_data \<Rightarrow> unicode \<Rightarrow> unicode" where
  "unicode_strip ud s = rev (dropWhile (ud_whitespace ud) (rev (dropWhile (ud_whitespace ud) s)))"

text \<open>
  \<open>str.lower()\<close> as CPython computes it (\<open>do_lower\<close> and \<open>handle_capital_sigma\<close> of
  Objects/unicodeobject.c). Every code point lowers by the table, except Greek capital sigma
  U+03A3 (931): it becomes final sigma U+03C2 (962) when the nearest code point before it
  that is not case-ignorable is cased, and the nearest one after it that is not
  case-ignorable is missing or not cased; otherwise it becomes U+03C3 (963). \<open>before\<close> holds
  the code points already passed, nearest first.
\<close>

definition final_sigma :: "unicode_data \<Rightarrow> unicode \<Rightarrow> unicode \<Rightarrow> bool" where
  "final_sigma ud before after =
     (case dropWhile (ud_case_ignorable ud) before of
        [] \<Rightarrow> False
      | c # _ \<Rightarrow>
          ud_cased ud c
          \<and> (case dropWhile (ud_case_ignorable ud) after of
                [] \<Rightarrow> True
              | d # _ \<Rightarrow> \<not> ud_cased ud d))"

fun do_lower :: "unicode_data \<Rightarrow> unicode \<Rightarrow> unicode \<Rightarrow> unicode" where
  "do_lower ud before [] = []"
| "do_lower ud before (c # cs) =
     (if c = 931 then [if final_sigma ud before cs then 962 else 963] else ud_lower_full ud c)
     @ do_lower ud (c # before) cs"

definition unicode_lower :: "unicode_data \<Rightarrow> unicode \<Rightarrow> unicode" where
  "unicode_lower ud s = do_lower ud [] s"

text \<open>
  \<open>.encode('utf-8')\<close>: one to four bytes per code point. A surrogate (U+D800 to U+DFFF)
  has no encoding, and Python raises \<open>UnicodeEncodeError\<close>: the value \<open>None\<close>.
\<close>

definition utf8_code_point :: "nat \<Rightarrow> nat list option" where
  "utf8_code_point c =
     (if c < 128 then Some [c]
      else if c < 2048 then Some [192 + c div 64, 128 + c mod 64]
      else if 55296 \<le> c \<and> c \<le> 57343 then None
      else if c < 65536 then Some [224 + c div 4096, 128 + c div 64 mod 64, 128 + c mod 64]
      else if c < 1114112
           then Some [240 + c div 262144, 128 + c div 4096 mod 64, 128 + c div 64 mod 64, 128 + c mod 64]
      else None)"

fun utf8_bytes :: "unicode \<Rightarrow> nat list option" where
  "utf8_bytes [] = Some []"
| "utf8_bytes (c # cs) =
     (case utf8_code_point c of
        None \<Rightarrow> None
      | Some bs \<Rightarrow> (case utf8_bytes cs of None \<Rightarrow> None | Some rest \<Rightarrow> Some (bs @ rest)))"

text \<open>
  \<open>generate_text_hash\<close> of database.py on Unicode text:
  \<open>normalized_text = text.strip().lower()\<close>, \<open>hash_input = f"{normalized_text}|{language}"\<close>
  (124 is \<open>|\<close>), and the digest of its UTF-8 bytes. The digest
  \<open>hashlib.sha256(b).hexdigest()\<close> is library code and enters as the parameter \<open>sha256\<close>.
\<close>

definition unicode_hash_input :: "unicode_data \<Rightarrow> unicode \<Rightarrow> unicode \<Rightarrow> unicode" where
  "unicode_hash_input ud text language =
     (let normalized_text = unicode_lower ud (unicode_strip ud text)
      in normalized_text @ [124] @ language)"

definition generate_text_hash_unicode ::
  "unicode_data \<Rightarrow> (nat list \<Rightarrow> 'h) \<Rightarrow> unicode \<Rightarrow> unicode \<Rightarrow> 'h option" where
  "generate_text_hash_unicode ud sha256 text language =
     (case utf8_bytes (unicode_hash_input ud text language) of
        None \<Rightarrow> None
      | Some bs \<Rightarrow> Some (sha256 bs))"

section \<open>Notions used to state the claim about the text hash\<close>

text \<open>
  Two code points differ at most in letter case when they are equal, or when neither is
  Greek capital sigma and the database gives both the same lowercase mapping and the same
  properties. Two texts differ only in letter case when their code points do, position by
  position.
\<close>

definition case_variant :: "unicode_data \<Rightarrow> nat \<Rightarrow> nat \<Rightarrow> bool" where
  "case_variant ud a b =
     (a = b
      \<or> (a \<noteq> 931 \<and> b \<noteq> 931
         \<and> ud_lower_full ud a = ud_lower_full ud b
         \<and> ud_cased ud a = ud_cased ud b
         \<and> ud_case_ignorable ud a = ud_case_ignorable ud b
         \<and> ud_whitespace ud a = ud_whitespace ud b))"

text \<open>
  A text is normalised when lowering and stripping have nothing to do on it: every code
  point is its own lowercase mapping, and neither end is whitespace.
\<close>

definition normalised :: "unicode_data \<Rightarrow> unicode \<Rightarrow> bool" where
  "normalised ud t =
     (list_all (\<lambda>c. c \<noteq> 931 \<and> ud_lower_full ud c = [c]) t
      \<and> (case t of [] \<Rightarrow> True | c # cs \<Rightarrow> \<not> ud_whitespace ud c \<and> \<not> ud_whitespace ud (last t)))"



text \<open>
  The database agrees with the 8-bit functions \<open>py_isspace\<close> and \<open>py_lower_char\<close> on the
  code points below 256.
\<close>

definition latin1_entries :: "unicode_data \<Rightarrow> bool" where
  "latin1_entries ud =
     (\<forall>c<256. ud_whitespace ud c = py_isspace (char_of c)
             \<and> ud_lower_full ud c = [of_char (py_lower_char (char_of c))])"

section \<open>An excerpt of the Unicode database\<close>

text \<open>
  The whitespace code points, and the lowercase mappings, cased and case-ignorable code
  points of Latin-1 (below U+0100) and of the Greek block (U+0370 to U+03FF). Every other
  code point is its own lowercase mapping here.
\<close>

definition in_ranges :: "nat \<Rightarrow> (nat \<times> nat) list \<Rightarrow> bool" where
  "in_ranges c rs = list_ex (\<lambda>(lo, hi). lo \<le> c \<and> c \<le> hi) rs"

definition latin_greek_data :: unicode_data where
  "latin_greek_data =
     \<lparr>ud_whitespace = (\<lambda>c. in_ranges c
        [(9, 13), (28, 32), (133, 133), (160, 160), (5760, 5760), (8192, 8202), (8232, 8233),
         (8239, 8239), (8287, 8287), (12288, 12288)]),
      ud_lower_full = (\<lambda>c.
        if in_ranges c [(65, 90), (192, 214), (216, 222), (913, 929), (931, 939)] then [c + 32]
        else case map_of
               [(880, 881), (882, 883), (886, 887), (895, 1011), (902, 940), (904, 941),
                (905, 942), (906, 943), (908, 972), (910, 973), (911, 974), (975, 983),
                (984, 985), (986, 987), (988, 989), (990, 991), (992, 993), (994, 995),
                (996, 997), (998, 999), (1000, 1001), (1002, 1003), (1004, 1005),
                (1006, 1007), (1012, 952), (1015, 1016), (1017, 1010), (1018, 1019),
                (1021, 891), (1022, 892), (1023, 893)] c of
               Some l \<Rightarrow> [l]
             | None \<Rightarrow> [c]),
      ud_cased = (\<lambda>c. in_ranges c
        [(65, 90), (97, 122), (170, 170), (181, 181), (186, 186), (192, 214), (216, 246),
         (248, 255), (880, 883), (886, 887), (890, 893), (895, 895), (902, 902), (904, 906),
         (908, 908), (910, 929), (931, 1013), (1015, 1023)]),
      ud_case_ignorable = (\<lambda>c. in_ranges c
        [(39, 39), (46, 46), (58, 58), (94, 94), (96, 96), (168, 168), (173, 173), (175, 175),
         (180, 180), (183, 184), (884, 885), (890, 890), (900, 901), (903, 903)])\<rparr>"

section \<open>Facts about strings\<close>


lemma of_char_lt_256: "(of_char c :: nat) < 256"
  by (cases c) (simp add: of_char_Char horner_sum_eq_sum)

section \<open>Both modes compute the same merge\<close>

lemma seq_kg_eq: "sequential_kg w n t c = parallel_kg (get_knowledge_graph_info w n t) c"
  by (simp add: sequential_kg_def parallel_kg_def responded_def split: option.splits)

lemma seq_dbpedia_eq: "sequential_dbpedia w n c = parallel_dbpedia (get_dbpedia_info w n) c"
  by (simp add: sequential_dbpedia_def parallel_dbpedia_def responded_def bind_result_def Let_def
           split: option.splits sum.splits)

lemma seq_wikidata_eq: "sequential_wikidata w n c = parallel_wikidata (get_wikidata_enhanced w n) c"
  by (simp add: sequential_wikidata_def parallel_wikidata_def responded_def Let_def split: option.splits)

lemma seq_openlibrary_eq:
  "sequential_openlibrary w n t c =
     parallel_openlibrary (if wants_openlibrary n t then get_openlibrary_info w n else None) c"
  by (simp add: sequential_openlibrary_def parallel_openlibrary_def responded_def wants_openlibrary_def
           split: option.splits)

lemma seq_confidence_eq: "sequential_confidence c = parallel_confidence c"
  by (simp add: sequential_confidence_def parallel_confidence_def)

lemma sequential_normal_form:
  "get_comprehensive_info_sequential w now n t =
     merge_partial_records (get_knowledge_graph_info w n t) (get_dbpedia_info w n)
       (get_wikidata_enhanced w n)
       (if wants_openlibrary n t then get_openlibrary_info w n else None)
       (new_combined_data n t now)"
  unfolding get_comprehensive_info_sequential_def merge_partial_records_def Let_def
    seq_kg_eq seq_dbpedia_eq seq_wikidata_eq seq_openlibrary_eq seq_confidence_eq bind_result_def
  by (rule refl)

lemma process_results_normal_form:
  "process_results_parallel results c0 =
     merge_partial_records (results_get results ''kg'') (results_get results ''dbpedia'')
       (results_get results ''wikidata'') (results_get results ''openlibrary'') c0"
  unfolding process_results_parallel_def merge_partial_records_def by (rule refl)

lemma fold_collect:
  "fold (\<lambda>source results. case map_of tasks source of None \<Rightarrow> results
                           | Some outcome \<Rightarrow> results(source \<mapsto> outcome)) order m k =
     (if k \<in> set order \<and> map_of tasks k \<noteq> None then map_of tasks k else m k)"
  by (induction order arbitrary: m) (auto split: option.splits)

lemma results_get_collect:
  "results_get (collect_results tasks order) k =
     (if k \<in> set order then (case map_of tasks k of None \<Rightarrow> None | Some d \<Rightarrow> d) else None)"
  unfolding results_get_def collect_results_def fold_collect by (auto split: option.splits)

lemma fetch_kg_eq: "fetch_kg w n t = get_knowledge_graph_info w n t"
  by (simp add: fetch_kg_def get_knowledge_graph_info_def split: response.splits)

lemma fetch_dbpedia_eq: "fetch_dbpedia w n = get_dbpedia_info w n"
  by (simp add: fetch_dbpedia_def get_dbpedia_info_def split: response.splits)

lemma fetch_wikidata_eq: "fetch_wikidata w n = get_wikidata_enhanced w n"
  by (simp add: fetch_wikidata_def get_wikidata_enhanced_def split: response.splits)

lemma fetch_openlibrary_eq: "fetch_openlibrary w n = get_openlibrary_info w n"
  by (simp add: fetch_openlibrary_def get_openlibrary_info_def split: response.splits)

text \<open>Which results the executor loop holds, for any completion order.\<close>

lemma parallel_normal_form:
  "get_comprehensive_info_parallel w order now n t =
     merge_partial_records
       (if ''kg'' \<in> set order then fetch_kg w n t else None)
       (if ''dbpedia'' \<in> set order then fetch_dbpedia w n else None)
       (if ''wikidata'' \<in> set order then fetch_wikidata w n else None)
       (if ''openlibrary'' \<in> set order \<and> wants_openlibrary n t then fetch_openlibrary w n else None)
       (new_combined_data n t now)"
  unfolding get_comprehensive_info_parallel_def Let_def process_results_normal_form results_get_collect
  by simp

lemma parallel_eq_sequential:
  assumes "''kg'' \<in> set order" "''dbpedia'' \<in> set order" "''wikidata'' \<in> set order"
    and "wants_openlibrary n t \<longrightarrow> ''openlibrary'' \<in> set order"
  shows "get_comprehensive_info_parallel w order now n t = get_comprehensive_info_sequential w now n t"
  unfolding parallel_normal_form sequential_normal_form
  using assms by (simp add: fetch_kg_eq fetch_dbpedia_eq fetch_wikidata_eq fetch_openlibrary_eq)

lemma kg_fields:
  "c_sources_consulted (parallel_kg kg c) =
     c_sources_consulted c @ (if responded kg then [''Google Knowledge Graph''] else [])"
  "c_confidence (parallel_kg kg c) = (if responded kg then ''very high'' else c_confidence c)"
  "c_summary (parallel_kg kg c) = (if responded kg then kg_summary kg else c_summary c)"
  "c_description (parallel_kg kg c) =
     (if responded kg then dict_get (the kg) ''description'' else c_description c)"
  "c_url (parallel_kg kg c) = (if responded kg then dict_get (the kg) ''url'' else c_url c)"
  "c_image_url (parallel_kg kg c) =
     (if responded kg then Some (dict_get (the kg) ''image_url'') else c_image_url c)"
  by (simp_all add: parallel_kg_def kg_summary_def)

lemma dbpedia_fields:
  assumes "parallel_dbpedia db c = Inr c'"
  shows "c_sources_consulted c' = c_sources_consulted c @ (if responded db then [''DBpedia''] else [])"
    and "c_confidence c' = (if responded db \<and> c_confidence c = ''low'' then ''high'' else c_confidence c)"
    and "c_description c' = c_description c"
    and "c_url c' = c_url c"
    and "c_image_url c' = c_image_url c"
    and "responded db \<and> \<not> truthy (c_summary c) \<Longrightarrow>
           py_slice_to 500 (dict_get_default (the db) ''abstract'' (PStr [])) = Inr (c_summary c')"
    and "\<not> (responded db \<and> \<not> truthy (c_summary c)) \<Longrightarrow> c_summary c' = c_summary c"
  using assms
  by (auto simp: parallel_dbpedia_def bind_result_def Let_def split: if_splits sum.splits)

lemma wikidata_fields:
  "c_sources_consulted (parallel_wikidata wd c) =
     c_sources_consulted c @ (if responded wd then [''Wikidata''] else [])"
  "c_confidence (parallel_wikidata wd c) =
     (if responded wd \<and> c_confidence c = ''low'' then ''medium'' else c_confidence c)"
  "c_summary (parallel_wikidata wd c) = c_summary c"
  "c_description (parallel_wikidata wd c) =
     (if responded wd \<and> \<not> truthy (c_description c) then dict_get (the wd) ''description''
      else c_description c)"
  "c_url (parallel_wikidata wd c) =
     (if responded wd \<and> \<not> truthy (c_url c) \<and> truthy (dict_get (the wd) ''wikipedia_url'')
      then dict_get (the wd) ''wikipedia_url'' else c_url c)"
  "c_image_url (parallel_wikidata wd c) = c_image_url c"
  by (simp_all add: parallel_wikidata_def Let_def)

lemma openlibrary_fields:
  "c_sources_consulted (parallel_openlibrary ol c) =
     c_sources_consulted c @ (if responded ol then [''OpenLibrary''] else [])"
  "c_confidence (parallel_openlibrary ol c) =
     (if responded ol \<and> c_confidence c = ''low'' then ''medium'' else c_confidence c)"
  "c_summary (parallel_openlibrary ol c) = c_summary c"
  "c_description (parallel_openlibrary ol c) = c_description c"
  "c_url (parallel_openlibrary ol c) = c_url c"
  "c_image_url (parallel_openlibrary ol c) = c_image_url c"
  by (simp_all add: parallel_openlibrary_def)

lemma confidence_fields:
  "c_sources_consulted (parallel_confidence c) = c_sources_consulted c"
  "c_description (parallel_confidence c) = c_description c"
  "c_url (parallel_confidence c) = c_url c"
  "c_image_url (parallel_confidence c) = c_image_url c"
  "c_summary (parallel_confidence c) =
     (if c_sources_consulted c = [] then PStr ''No information found in authoritative sources''
      else c_summary c)"
  "c_confidence (parallel_confidence c) =
     (if length (c_sources_consulted c) = 0 then ''none''
      else if length (c_sources_consulted c) \<ge> 3 then ''very high (cross-verified)''
      else if length (c_sources_consulted c) = 2 then ''high (verified)''
      else if length (c_sources_consulted c) = 1
               \<and> ''Google Knowledge Graph'' \<in> set (c_sources_consulted c) then ''high''
      else c_confidence c)"
  by (simp_all add: parallel_confidence_def Let_def)

lemma new_fields:
  "c_sources_consulted (new_combined_data n t now) = []"
  "c_confidence (new_combined_data n t now) = ''low''"
  "c_summary (new_combined_data n t now) = PNone"
  "c_description (new_combined_data n t now) = PNone"
  "c_url (new_combined_data n t now) = PNone"
  "c_image_url (new_combined_data n t now) = None"
  by (simp_all add: new_combined_data_def)

lemma merge_obtain:
  assumes "merge_partial_records kg db wd ol c0 = Inr r"
  obtains c2 where "parallel_dbpedia db (parallel_kg kg c0) = Inr c2"
    and "r = parallel_confidence (parallel_openlibrary ol (parallel_wikidata wd c2))"
  using assms by (auto simp: merge_partial_records_def bind_result_def split: sum.splits)

lemma merge_sources:
  assumes "merge_partial_records kg db wd ol (new_combined_data n t now) = Inr r"
  shows "c_sources_consulted r = sources_of kg db wd ol"
proof -
  from assms obtain c2 where a: "parallel_dbpedia db (parallel_kg kg (new_combined_data n t now)) = Inr c2"
    and r: "r = parallel_confidence (parallel_openlibrary ol (parallel_wikidata wd c2))"
    by (rule merge_obtain)
  show ?thesis
    by (simp add: r confidence_fields openlibrary_fields wikidata_fields dbpedia_fields(1) [OF a]
          kg_fields new_fields sources_of_def)
qed

lemma merge_confidence:
  assumes "merge_partial_records kg db wd ol (new_combined_data n t now) = Inr r"
  shows "c_confidence r = confidence_tier (sources_of kg db wd ol)"
proof -
  from assms obtain c2 where a: "parallel_dbpedia db (parallel_kg kg (new_combined_data n t now)) = Inr c2"
    and r: "r = parallel_confidence (parallel_openlibrary ol (parallel_wikidata wd c2))"
    by (rule merge_obtain)
  have s: "c_sources_consulted c2 = (if responded kg then [''Google Knowledge Graph''] else [])
              @ (if responded db then [''DBpedia''] else [])"
    by (simp add: dbpedia_fields(1) [OF a] kg_fields new_fields)
  have c: "c_confidence c2 = (if responded kg then ''very high'' else if responded db then ''high'' else ''low'')"
    by (simp add: dbpedia_fields(2) [OF a] kg_fields new_fields)
  show ?thesis
    unfolding r confidence_fields openlibrary_fields wikidata_fields s c sources_of_def confidence_tier_def
    by (cases "responded kg"; cases "responded db"; cases "responded wd"; cases "responded ol") simp_all
qed

lemma merge_description:
  assumes "merge_partial_records kg db wd ol (new_combined_data n t now) = Inr r"
  shows "c_description r = merged_description kg wd"
    and "c_url r = merged_url kg wd"
    and "c_image_url r = merged_image_url kg"
proof -
  from assms obtain c2 where a: "parallel_dbpedia db (parallel_kg kg (new_combined_data n t now)) = Inr c2"
    and r: "r = parallel_confidence (parallel_openlibrary ol (parallel_wikidata wd c2))"
    by (rule merge_obtain)
  show "c_description r = merged_description kg wd"
    by (simp add: r confidence_fields openlibrary_fields wikidata_fields dbpedia_fields(3) [OF a]
          kg_fields new_fields merged_description_def Let_def)
  show "c_url r = merged_url kg wd"
    by (simp add: r confidence_fields openlibrary_fields wikidata_fields dbpedia_fields(4) [OF a]
          kg_fields new_fields merged_url_def Let_def)
  show "c_image_url r = merged_image_url kg"
    by (simp add: r confidence_fields openlibrary_fields wikidata_fields dbpedia_fields(5) [OF a]
          kg_fields new_fields merged_image_url_def)
qed

lemma merge_summary:
  assumes "merge_partial_records kg db wd ol (new_combined_data n t now) = Inr r"
  shows "sources_of kg db wd ol = [] \<Longrightarrow> c_summary r = PStr ''No information found in authoritative sources''"
    and "sources_of kg db wd ol \<noteq> [] \<Longrightarrow> truthy (kg_summary kg) \<or> \<not> responded db \<Longrightarrow> c_summary r = kg_summary kg"
    and "\<not> truthy (kg_summary kg) \<Longrightarrow> responded db \<Longrightarrow>
           py_slice_to 500 (dict_get_default (the db) ''abstract'' (PStr [])) = Inr (c_summary r)"
proof -
  from assms obtain c2 where a: "parallel_dbpedia db (parallel_kg kg (new_combined_data n t now)) = Inr c2"
    and r: "r = parallel_confidence (parallel_openlibrary ol (parallel_wikidata wd c2))"
    by (rule merge_obtain)
  have s: "c_sources_consulted (parallel_openlibrary ol (parallel_wikidata wd c2)) = sources_of kg db wd ol"
    by (simp add: openlibrary_fields wikidata_fields dbpedia_fields(1) [OF a] kg_fields new_fields sources_of_def)
  have k: "c_summary (parallel_kg kg (new_combined_data n t now)) = kg_summary kg"
    by (simp add: kg_fields new_fields kg_summary_def)
  have r': "c_summary r = (if sources_of kg db wd ol = [] then PStr ''No information found in authoritative sources'' else c_summary c2)"
    unfolding r confidence_fields s by (simp add: openlibrary_fields wikidata_fields)
  show "sources_of kg db wd ol = [] \<Longrightarrow> c_summary r = PStr ''No information found in authoritative sources''"
    by (simp add: r')
  show "sources_of kg db wd ol \<noteq> [] \<Longrightarrow> truthy (kg_summary kg) \<or> \<not> responded db \<Longrightarrow> c_summary r = kg_summary kg"
    using dbpedia_fields(7) [OF a] by (auto simp: r' k)
  show "\<not> truthy (kg_summary kg) \<Longrightarrow> responded db \<Longrightarrow>
           py_slice_to 500 (dict_get_default (the db) ''abstract'' (PStr [])) = Inr (c_summary r)"
    using dbpedia_fields(6) [OF a] by (auto simp: r' k sources_of_def)
qed

section \<open>Claims about the aggregator\<close>

lemma comprehensive_normal_form:
  "get_comprehensive_info w order now n t parallel =
     merge_partial_records
       (if parallel \<and> ''kg'' \<notin> set order then None else get_knowledge_graph_info w n t)
       (if parallel \<and> ''dbpedia'' \<notin> set order then None else get_dbpedia_info w n)
       (if parallel \<and> ''wikidata'' \<notin> set order then None else get_wikidata_enhanced w n)
       (if wants_openlibrary n t \<and> \<not> (parallel \<and> ''openlibrary'' \<notin> set order)
        then get_openlibrary_info w n else None)
       (new_combined_data n t now)"
  by (simp add: get_comprehensive_info_def parallel_normal_form sequential_normal_form
        fetch_kg_eq fetch_dbpedia_eq fetch_wikidata_eq fetch_openlibrary_eq)

lemma comprehensive_complete:
  assumes "parallel \<longrightarrow> every_task_completes order n t"
  shows "get_comprehensive_info w order now n t parallel =
     merge_partial_records (get_knowledge_graph_info w n t) (get_dbpedia_info w n)
       (get_wikidata_enhanced w n)
       (if wants_openlibrary n t then get_openlibrary_info w n else None)
       (new_combined_data n t now)"
  using assms by (auto simp: comprehensive_normal_form every_task_completes_def)

lemma gandhi_parallel:
  "get_comprehensive_info gandhi_world [''wikidata'', ''kg'', ''dbpedia''] 0
     ''Mahatma Gandhi'' ''PERSON'' True = Inr gandhi_record"
  by code_simp

lemma gandhi_sequential:
  "get_comprehensive_info gandhi_world [] 0 ''Mahatma Gandhi'' ''PERSON'' False = Inr gandhi_record"
  by code_simp

lemma gandhi_completes:
  "every_task_completes [''wikidata'', ''kg'', ''dbpedia''] ''Mahatma Gandhi'' ''PERSON''"
  by code_simp

subsection \<open>C1: the confidence tier\<close>

text \<open>
  C1, as the code has it. In both modes the confidence of the combined record is a
  function of \<open>sources_consulted\<close>: no source gives \<open>none\<close>, one source gives \<open>high\<close>
  when it is the Knowledge Graph or DBpedia and \<open>medium\<close> when it is Wikidata or
  OpenLibrary, two sources give \<open>high (verified)\<close>, three or four give
  \<open>very high (cross-verified)\<close>.
\<close>

theorem confidence_tier_of_sources:
  assumes "get_comprehensive_info w order now n t parallel = Inr r"
  shows "c_confidence r = confidence_tier (c_sources_consulted r)"
  using assms unfolding comprehensive_normal_form
  by (simp add: merge_confidence merge_sources)

theorem confidence_tier_of_sources_witness:
  "get_comprehensive_info gandhi_world [''wikidata'', ''kg'', ''dbpedia''] 0
     ''Mahatma Gandhi'' ''PERSON'' True = Inr gandhi_record
   \<and> c_confidence gandhi_record = confidence_tier (c_sources_consulted gandhi_record)"
  using gandhi_parallel confidence_tier_of_sources [OF gandhi_parallel]
  by (rule conjI)

text \<open>
  The table of the specification fails where DBpedia is the only source that
  responded: the record says \<open>high\<close>, the table says \<open>medium\<close>.
\<close>

theorem confidence_dbpedia_only_counterexample:
  "get_comprehensive_info dbpedia_only_world [''dbpedia'', ''wikidata'', ''kg''] 0
     ''Ada Lovelace'' ''PERSON'' True
     = Inr \<lparr>c_entity_name = ''Ada Lovelace'', c_entity_type = ''PERSON'',
            c_summary = PStr ''English mathematician and writer'',
            c_description = PNone, c_url = PNone, c_sources_consulted = [''DBpedia''],
            c_confidence = ''high'', c_retrieved_at = 0, c_image_url = None,
            c_kg_confidence_score = None,
            c_dbpedia_uri = Some (PStr ''http://dbpedia.org/resource/Ada_Lovelace''),
            c_wikidata_id = None, c_literary_info = None\<rparr>
   \<and> spec_confidence_tier [''DBpedia''] = ''medium''
   \<and> ''high'' \<noteq> ''medium''"
  by code_simp

subsection \<open>C2: when the call returns\<close>

lemma dbpedia_returns:
  assumes "case db of None \<Rightarrow> True | Some d \<Rightarrow> sliceable (dict_get_default d ''abstract'' (PStr []))"
  shows "\<exists>c'. parallel_dbpedia db c = Inr c'"
proof (cases db)
  case None
  then show ?thesis by (simp add: parallel_dbpedia_def responded_def)
next
  case (Some d)
  with assms obtain v where "py_slice_to 500 (dict_get_default d ''abstract'' (PStr [])) = Inr v"
    by (cases "dict_get_default d ''abstract'' (PStr [])") (auto simp: sliceable_def)
  with Some show ?thesis
    by (simp add: parallel_dbpedia_def bind_result_def Let_def)
qed

lemma merge_returns:
  assumes "case db of None \<Rightarrow> True | Some d \<Rightarrow> sliceable (dict_get_default d ''abstract'' (PStr []))"
  shows "\<exists>r. merge_partial_records kg db wd ol c = Inr r"
proof -
  from dbpedia_returns [OF assms] obtain c' where "parallel_dbpedia db (parallel_kg kg c) = Inr c'"
    by blast
  then show ?thesis by (simp add: merge_partial_records_def bind_result_def)
qed

text \<open>
  C2, as the code has it. The call returns a combined record for every entity name,
  the empty name included, and in both modes, whatever subset of the providers raises,
  times out or returns no data, provided the abstract of a DBpedia answer is text (or
  a list). The name is never validated.
\<close>

theorem comprehensive_info_returns:
  assumes "abstract_sliceable w n"
  shows "\<exists>r. get_comprehensive_info w order now n t parallel = Inr r"
proof -
  from assms have
    "case (if parallel \<and> ''dbpedia'' \<notin> set order then None else get_dbpedia_info w n) of
       None \<Rightarrow> True
     | Some d \<Rightarrow> sliceable (dict_get_default d ''abstract'' (PStr []))"
    by (auto simp: abstract_sliceable_def split: option.splits)
  then show ?thesis
    unfolding comprehensive_normal_form by (rule merge_returns)
qed

lemma silent_sliceable: "abstract_sliceable silent_world []"
  by code_simp

theorem comprehensive_info_returns_witness:
  "abstract_sliceable silent_world []
   \<and> (\<exists>r. get_comprehensive_info silent_world [''kg'', ''dbpedia'', ''wikidata''] 0 [] ''MISC'' True
            = Inr r)"
  using silent_sliceable comprehensive_info_returns [OF silent_sliceable]
  by (rule conjI)

text \<open>
  The empty entity name is not rejected: with every provider failing, the call
  returns the record of confidence \<open>none\<close>.
\<close>

theorem empty_name_counterexample:
  "get_comprehensive_info silent_world [''kg'', ''dbpedia'', ''wikidata''] 0 [] ''MISC'' True
     = Inr \<lparr>c_entity_name = [], c_entity_type = ''MISC'',
            c_summary = PStr ''No information found in authoritative sources'',
            c_description = PNone, c_url = PNone, c_sources_consulted = [],
            c_confidence = ''none'', c_retrieved_at = 0, c_image_url = None,
            c_kg_confidence_score = None, c_dbpedia_uri = None,
            c_wikidata_id = None, c_literary_info = None\<rparr>"
  by code_simp

text \<open>
  Outside the proviso: a DBpedia binding whose abstract value is \<open>null\<close> passes the
  adapter, and the slice in the merge raises, in both modes.
\<close>

lemma null_abstract_raises:
  "get_comprehensive_info null_abstract_world [''kg'', ''dbpedia'', ''wikidata''] 0
     ''Ada Lovelace'' ''PERSON'' True = Inl TypeError
   \<and> get_comprehensive_info null_abstract_world [] 0 ''Ada Lovelace'' ''PERSON'' False = Inl TypeError"
  by code_simp

subsection \<open>C3: description, URL and image URL\<close>

text \<open>
  C3, as the code has it. In both modes the description is the Knowledge Graph's
  description when that is non-empty and otherwise Wikidata's, when Wikidata responded;
  the URL is the Knowledge Graph's when that is non-empty and otherwise the Wikipedia
  URL of the Wikidata answer when that is non-empty; the image URL is the Knowledge
  Graph's and is missing when the Knowledge Graph did not respond. DBpedia and
  OpenLibrary supply none of the three.
\<close>

theorem description_url_image_sources:
  assumes "get_comprehensive_info w order now n t parallel = Inr r"
    and "parallel \<longrightarrow> every_task_completes order n t"
  shows "c_description r = merged_description (get_knowledge_graph_info w n t) (get_wikidata_enhanced w n)
       \<and> c_url r = merged_url (get_knowledge_graph_info w n t) (get_wikidata_enhanced w n)
       \<and> c_image_url r = merged_image_url (get_knowledge_graph_info w n t)"
  using assms(1) unfolding comprehensive_complete [OF assms(2)]
  by (simp add: merge_description)

theorem description_url_image_sources_witness:
  "get_comprehensive_info gandhi_world [''wikidata'', ''kg'', ''dbpedia''] 0
     ''Mahatma Gandhi'' ''PERSON'' True = Inr gandhi_record
   \<and> every_task_completes [''wikidata'', ''kg'', ''dbpedia''] ''Mahatma Gandhi'' ''PERSON''
   \<and> (c_description gandhi_record
         = merged_description (get_knowledge_graph_info gandhi_world ''Mahatma Gandhi'' ''PERSON'')
             (get_wikidata_enhanced gandhi_world ''Mahatma Gandhi'')
       \<and> c_url gandhi_record
         = merged_url (get_knowledge_graph_info gandhi_world ''Mahatma Gandhi'' ''PERSON'')
             (get_wikidata_enhanced gandhi_world ''Mahatma Gandhi'')
       \<and> c_image_url gandhi_record
         = merged_image_url (get_knowledge_graph_info gandhi_world ''Mahatma Gandhi'' ''PERSON''))"
proof -
  have c: "True \<longrightarrow> every_task_completes [''wikidata'', ''kg'', ''dbpedia''] ''Mahatma Gandhi'' ''PERSON''"
    using gandhi_completes by simp
  from gandhi_parallel gandhi_completes description_url_image_sources [OF gandhi_parallel c]
  show ?thesis by blast
qed

text \<open>
  With DBpedia and OpenLibrary the only sources that responded, the description is
  \<open>None\<close>, the URL is \<open>None\<close> and there is no image URL: nothing of DBpedia or of
  OpenLibrary fills them.
\<close>

theorem description_dbpedia_openlibrary_counterexample:
  "get_comprehensive_info dbpedia_openlibrary_world [''openlibrary'', ''dbpedia'', ''kg'', ''wikidata''] 0
     ''Hamlet'' ''WORK_OF_ART'' True
     = Inr \<lparr>c_entity_name = ''Hamlet'', c_entity_type = ''WORK_OF_ART'',
            c_summary = PStr ''Hamlet is a tragedy written by William Shakespeare'',
            c_description = PNone, c_url = PNone,
            c_sources_consulted = [''DBpedia'', ''OpenLibrary''],
            c_confidence = ''high (verified)'', c_retrieved_at = 0, c_image_url = None,
            c_kg_confidence_score = None,
            c_dbpedia_uri = Some (PStr ''http://dbpedia.org/resource/Hamlet''),
            c_wikidata_id = None,
            c_literary_info =
              Some [(''title'', PStr ''Hamlet''),
                    (''author'', PList [PStr ''William Shakespeare'']),
                    (''first_publish_year'', PInt 1603),
                    (''subject'', PList [PStr ''Tragedy'']),
                    (''isbn'', PList []),
                    (''cover_url'', PStr ''https://covers.openlibrary.org/b/id/42-M.jpg''),
                    (''url'', PStr ''https://openlibrary.org/works/OL1W''),
                    (''source'', PStr ''OpenLibrary''),
                    (''retrieved_at'', PStr ''2025-01-01T00:00:00'')]\<rparr>"
  by code_simp

subsection \<open>C4: the summary\<close>

text \<open>
  C4, as the code has it by design. In both modes, when at least one provider responded,
  the summary is the first non-empty long-form text in priority order, which is the
  Knowledge Graph's detailed description and then the first 500 characters of the
  DBpedia abstract, and when neither is non-empty it is the Knowledge Graph's
  description. Wikidata and OpenLibrary supply no summary. The case in which the
  Knowledge Graph gave a description without a detailed description and DBpedia gave a
  non-empty abstract is set aside: nothing is stated about it.
\<close>

theorem summary_sources:
  assumes "get_comprehensive_info w order now n t parallel = Inr r"
    and "parallel \<longrightarrow> every_task_completes order n t"
    and "c_sources_consulted r \<noteq> []"
    and "\<not> description_shadows_abstract (get_knowledge_graph_info w n t) (get_dbpedia_info w n)"
  shows "merged_summary (get_knowledge_graph_info w n t) (get_dbpedia_info w n) = Inr (c_summary r)"
proof -
  let ?kg = "get_knowledge_graph_info w n t" and ?db = "get_dbpedia_info w n"
  let ?wd = "get_wikidata_enhanced w n"
  let ?ol = "if wants_openlibrary n t then get_openlibrary_info w n else None"
  let ?abstract = "dict_get_default (the ?db) ''abstract'' (PStr [])"
  from assms(1) have m: "merge_partial_records ?kg ?db ?wd ?ol (new_combined_data n t now) = Inr r"
    unfolding comprehensive_complete [OF assms(2)] .
  from assms(3) have s: "sources_of ?kg ?db ?wd ?ol \<noteq> []"
    by (simp add: merge_sources [OF m])
  have code: "(if responded ?db \<and> \<not> truthy (kg_summary ?kg) then py_slice_to 500 ?abstract
               else Inr (kg_summary ?kg)) = Inr (c_summary r)"
  proof (cases "responded ?db \<and> \<not> truthy (kg_summary ?kg)")
    case True
    then show ?thesis using merge_summary(3) [OF m] by simp
  next
    case False
    then show ?thesis using merge_summary(2) [OF m s] by auto
  qed
  have "merged_summary ?kg ?db =
          (if responded ?db \<and> \<not> truthy (kg_summary ?kg) then py_slice_to 500 ?abstract
           else Inr (kg_summary ?kg))"
    using assms(4)
    by (auto simp: merged_summary_def kg_summary_def py_or_def description_shadows_abstract_def Let_def)
  with code show ?thesis by simp
qed

lemma gandhi_sources: "c_sources_consulted gandhi_record \<noteq> []"
  by (simp add: gandhi_record_def)

lemma gandhi_not_shadowed:
  "\<not> description_shadows_abstract (get_knowledge_graph_info gandhi_world ''Mahatma Gandhi'' ''PERSON'')
       (get_dbpedia_info gandhi_world ''Mahatma Gandhi'')"
  by code_simp

lemma lovelace_parallel:
  "get_comprehensive_info dbpedia_only_world [''dbpedia'', ''wikidata'', ''kg''] 0
     ''Ada Lovelace'' ''PERSON'' True = Inr lovelace_record"
  by code_simp

lemma lovelace_completes:
  "every_task_completes [''dbpedia'', ''wikidata'', ''kg''] ''Ada Lovelace'' ''PERSON''"
  by code_simp

lemma lovelace_sources: "c_sources_consulted lovelace_record \<noteq> []"
  by (simp add: lovelace_record_def)

lemma lovelace_not_shadowed:
  "\<not> description_shadows_abstract (get_knowledge_graph_info dbpedia_only_world ''Ada Lovelace'' ''PERSON'')
       (get_dbpedia_info dbpedia_only_world ''Ada Lovelace'')"
  by code_simp

theorem summary_sources_witness:
  "get_comprehensive_info gandhi_world [] 0 ''Mahatma Gandhi'' ''PERSON'' False = Inr gandhi_record
   \<and> c_sources_consulted gandhi_record \<noteq> []
   \<and> \<not> description_shadows_abstract (get_knowledge_graph_info gandhi_world ''Mahatma Gandhi'' ''PERSON'')
         (get_dbpedia_info gandhi_world ''Mahatma Gandhi'')
   \<and> merged_summary (get_knowledge_graph_info gandhi_world ''Mahatma Gandhi'' ''PERSON'')
       (get_dbpedia_info gandhi_world ''Mahatma Gandhi'') = Inr (c_summary gandhi_record)
   \<and> get_comprehensive_info dbpedia_only_world [''dbpedia'', ''wikidata'', ''kg''] 0
       ''Ada Lovelace'' ''PERSON'' True = Inr lovelace_record
   \<and> every_task_completes [''dbpedia'', ''wikidata'', ''kg''] ''Ada Lovelace'' ''PERSON''
   \<and> c_sources_consulted lovelace_record \<noteq> []
   \<and> \<not> description_shadows_abstract (get_knowledge_graph_info dbpedia_only_world ''Ada Lovelace'' ''PERSON'')
         (get_dbpedia_info dbpedia_only_world ''Ada Lovelace'')
   \<and> merged_summary (get_knowledge_graph_info dbpedia_only_world ''Ada Lovelace'' ''PERSON'')
       (get_dbpedia_info dbpedia_only_world ''Ada Lovelace'') = Inr (c_summary lovelace_record)"
proof -
  have c: "False \<longrightarrow> every_task_completes [] ''Mahatma Gandhi'' ''PERSON''"
    by simp
  have d: "True \<longrightarrow> every_task_completes [''dbpedia'', ''wikidata'', ''kg''] ''Ada Lovelace'' ''PERSON''"
    using lovelace_completes by simp
  from gandhi_sequential gandhi_sources gandhi_not_shadowed
    summary_sources [OF gandhi_sequential c gandhi_sources gandhi_not_shadowed]
    lovelace_parallel lovelace_completes lovelace_sources lovelace_not_shadowed
    summary_sources [OF lovelace_parallel d lovelace_sources lovelace_not_shadowed]
  show ?thesis by blast
qed

text \<open>
  The case set aside, for the record: with a Knowledge Graph description, no detailed
  description and a DBpedia abstract, both modes keep the description as the summary.
\<close>

lemma description_shadows_abstract_example:
  "description_shadows_abstract
     (get_knowledge_graph_info description_and_abstract_world ''Mahatma Gandhi'' ''PERSON'')
     (get_dbpedia_info description_and_abstract_world ''Mahatma Gandhi'')
   \<and> summary_of (get_comprehensive_info description_and_abstract_world [''kg'', ''dbpedia'', ''wikidata''] 0
                   ''Mahatma Gandhi'' ''PERSON'' True) = Some (PStr ''Indian lawyer'')
   \<and> summary_of (get_comprehensive_info description_and_abstract_world [] 0
                   ''Mahatma Gandhi'' ''PERSON'' False) = Some (PStr ''Indian lawyer'')"
  by code_simp

text \<open>
  With Wikidata the only source that responded, and its description non-empty, the
  summary of the combined record is \<open>None\<close>.
\<close>

theorem summary_wikidata_only_counterexample:
  "get_comprehensive_info wikidata_only_world [''kg'', ''wikidata'', ''dbpedia''] 0
     ''Mahatma Gandhi'' ''PERSON'' True
     = Inr \<lparr>c_entity_name = ''Mahatma Gandhi'', c_entity_type = ''PERSON'',
            c_summary = PNone,
            c_description = PStr ''Indian independence activist'',
            c_url = PStr ''https://en.wikipedia.org/wiki/Mahatma_Gandhi'',
            c_sources_consulted = [''Wikidata''],
            c_confidence = ''medium'', c_retrieved_at = 0, c_image_url = None,
            c_kg_confidence_score = None, c_dbpedia_uri = None,
            c_wikidata_id = Some (PStr ''Q1001''), c_literary_info = None\<rparr>"
  by code_simp

subsection \<open>C9: the two modes agree\<close>

lemma forget_kg: "parallel_kg kg (c\<lparr>c_retrieved_at := x\<rparr>) = (parallel_kg kg c)\<lparr>c_retrieved_at := x\<rparr>"
  by (simp add: parallel_kg_def)

lemma forget_dbpedia:
  "parallel_dbpedia db (c\<lparr>c_retrieved_at := 0\<rparr>) = forget_time (parallel_dbpedia db c)"
  by (auto simp: parallel_dbpedia_def forget_time_def bind_result_def Let_def split: sum.splits)

lemma forget_wikidata:
  "parallel_wikidata wd (c\<lparr>c_retrieved_at := x\<rparr>) = (parallel_wikidata wd c)\<lparr>c_retrieved_at := x\<rparr>"
  by (simp add: parallel_wikidata_def Let_def)

lemma forget_openlibrary:
  "parallel_openlibrary ol (c\<lparr>c_retrieved_at := x\<rparr>) = (parallel_openlibrary ol c)\<lparr>c_retrieved_at := x\<rparr>"
  by (simp add: parallel_openlibrary_def)

lemma forget_confidence:
  "parallel_confidence (c\<lparr>c_retrieved_at := x\<rparr>) = (parallel_confidence c)\<lparr>c_retrieved_at := x\<rparr>"
  by (simp add: parallel_confidence_def Let_def)

lemma forget_new: "(new_combined_data n t now)\<lparr>c_retrieved_at := 0\<rparr> = new_combined_data n t 0"
  by (simp add: new_combined_data_def)

lemma forget_merge:
  "forget_time (merge_partial_records kg db wd ol (new_combined_data n t now)) =
     merge_partial_records kg db wd ol (new_combined_data n t 0)"
proof -
  have "merge_partial_records kg db wd ol (new_combined_data n t 0) =
          bind_result (forget_time (parallel_dbpedia db (parallel_kg kg (new_combined_data n t now))))
            (\<lambda>c. Inr (parallel_confidence (parallel_openlibrary ol (parallel_wikidata wd c))))"
    unfolding merge_partial_records_def forget_new [of n t now, symmetric] forget_kg forget_dbpedia ..
  also have "\<dots> = forget_time (merge_partial_records kg db wd ol (new_combined_data n t now))"
    by (cases "parallel_dbpedia db (parallel_kg kg (new_combined_data n t now))")
       (simp_all add: merge_partial_records_def forget_time_def bind_result_def
          forget_wikidata forget_openlibrary forget_confidence)
  finally show ?thesis by simp
qed

text \<open>
  C9. For the same answers of the providers, parallel mode builds the same combined
  record whatever the order in which the futures complete, and sequential mode builds
  that record too: every field agrees, the time of the lookup set aside. When the
  merge raises in one mode it raises in the other.
\<close>

theorem parallel_sequential_same_record:
  assumes "every_task_completes order1 n t" and "every_task_completes order2 n t"
  shows "forget_time (get_comprehensive_info w order1 now1 n t True)
           = forget_time (get_comprehensive_info w order2 now2 n t True)
       \<and> forget_time (get_comprehensive_info w order1 now1 n t True)
           = forget_time (get_comprehensive_info w order3 now3 n t False)"
  using assms by (simp add: comprehensive_complete forget_merge)

theorem parallel_sequential_same_record_witness:
  "every_task_completes [''wikidata'', ''kg'', ''dbpedia''] ''Mahatma Gandhi'' ''PERSON''
   \<and> every_task_completes [''dbpedia'', ''kg'', ''wikidata''] ''Mahatma Gandhi'' ''PERSON''
   \<and> (forget_time (get_comprehensive_info gandhi_world [''wikidata'', ''kg'', ''dbpedia''] 5
                     ''Mahatma Gandhi'' ''PERSON'' True)
        = forget_time (get_comprehensive_info gandhi_world [''dbpedia'', ''kg'', ''wikidata''] 7
                         ''Mahatma Gandhi'' ''PERSON'' True)
      \<and> forget_time (get_comprehensive_info gandhi_world [''wikidata'', ''kg'', ''dbpedia''] 5
                       ''Mahatma Gandhi'' ''PERSON'' True)
        = forget_time (get_comprehensive_info gandhi_world [] 9 ''Mahatma Gandhi'' ''PERSON'' False))"
proof -
  have a: "every_task_completes [''wikidata'', ''kg'', ''dbpedia''] ''Mahatma Gandhi'' ''PERSON''"
    by code_simp
  have b: "every_task_completes [''dbpedia'', ''kg'', ''wikidata''] ''Mahatma Gandhi'' ''PERSON''"
    by code_simp
  from a b parallel_sequential_same_record [OF a b, of gandhi_world 5 7 "[]" 9]
  show ?thesis by blast
qed

section \<open>Claims about the analysis cache\<close>

lemma select_find:
  "select_analysis (generate_text_hash sha256 text language) language (now - days 30) table =
     filter (live_entry sha256 now text language) table"
  unfolding select_analysis_def
  by (rule filter_cong) (auto simp: live_entry_def stored_for_def)

lemma filter_find_Some: "find P xs = Some x \<Longrightarrow> \<exists>rest. filter P xs = x # rest"
  by (induction xs) (auto split: if_splits)

lemma filter_all_not: "\<forall>x\<in>set xs. \<not> P x \<Longrightarrow> filter P xs = []"
  by (induction xs) auto


lemma find_exists: "\<exists>x\<in>set xs. P x \<Longrightarrow> \<exists>y. find P xs = Some y"
  by (induction xs) auto

lemma get_miss:
  assumes "\<forall>r\<in>set table. \<not> live_entry sha256 now text language r"
  shows "get_cached_analysis sha256 incr select_call rpc_call now table text language = (table, None)"
  using filter_all_not [OF assms]
  by (simp add: get_cached_analysis_def Let_def select_find split: call.splits)

lemma get_hit:
  assumes "find (live_entry sha256 now text language) table = Some entry"
  shows "get_cached_analysis sha256 incr Succeeds rpc_call now table text language =
           ((case rpc_call of Succeeds \<Rightarrow> incr (row_id entry) table | Raises \<Rightarrow> table),
            Some (stored_analysis entry))"
proof -
  from filter_find_Some [OF assms] obtain rest
    where "filter (live_entry sha256 now text language) table = entry # rest" by blast
  then show ?thesis
    by (simp add: get_cached_analysis_def Let_def select_find stored_analysis_def)
qed

text \<open>A read that reports absence leaves the table as it was.\<close>

lemma get_none_unchanged:
  assumes "snd (get_cached_analysis sha256 incr select_call rpc_call now table text language) = None"
  shows "fst (get_cached_analysis sha256 incr select_call rpc_call now table text language) = table"
  using assms
  by (auto simp: get_cached_analysis_def Let_def split: call.splits list.splits)

lemma aqueduct_live:
  "find (live_entry id (days 10) ''  Ancient Roman Aqueduct '' ''en'') [aqueduct_entry 0 3]
     = Some (aqueduct_entry 0 3)"
  by code_simp

subsection \<open>C6: expiry after 30 days\<close>

text \<open>
  C6, as the code has it. When every row stored for a text and language was created 30
  days ago or earlier, the read returns absent and the table after the read is the
  table before it: the expired row is still there, for the statistics and for a later
  purge. When the query succeeds and the first row stored for the text and language
  that is younger than 30 days is \<open>entry\<close>, the read returns the analysis fields of
  \<open>entry\<close>.
\<close>

theorem expired_entry_absent_not_deleted:
  "((\<forall>r\<in>set table. stored_for sha256 text language r
        \<longrightarrow> cd_created_at (row_data r) \<le> now - days 30)
      \<longrightarrow> get_cached_analysis sha256 incr select_call rpc_call now table text language = (table, None))
   \<and> (find (live_entry sha256 now text language) table = Some entry
      \<longrightarrow> snd (get_cached_analysis sha256 incr Succeeds rpc_call now table text language)
            = Some (stored_analysis entry))"
proof (intro conjI impI)
  assume "\<forall>r\<in>set table. stored_for sha256 text language r
            \<longrightarrow> cd_created_at (row_data r) \<le> now - days 30"
  then have "\<forall>r\<in>set table. \<not> live_entry sha256 now text language r"
    by (auto simp: live_entry_def)
  then show "get_cached_analysis sha256 incr select_call rpc_call now table text language = (table, None)"
    by (rule get_miss)
next
  assume "find (live_entry sha256 now text language) table = Some entry"
  then show "snd (get_cached_analysis sha256 incr Succeeds rpc_call now table text language)
               = Some (stored_analysis entry)"
    by (simp add: get_hit)
qed

theorem expired_entry_absent_not_deleted_witness:
  "cd_created_at (row_data (aqueduct_entry 0 3)) \<le> days 31 - days 30
   \<and> get_cached_analysis id increment_cache_hit Succeeds Succeeds (days 31) [aqueduct_entry 0 3]
       ''ancient Roman aqueduct'' ''en'' = ([aqueduct_entry 0 3], None)
   \<and> find (live_entry id (days 10) ''  Ancient Roman Aqueduct '' ''en'') [aqueduct_entry 0 3]
       = Some (aqueduct_entry 0 3)
   \<and> snd (get_cached_analysis id increment_cache_hit Succeeds Succeeds (days 10) [aqueduct_entry 0 3]
            ''  Ancient Roman Aqueduct '' ''en'') = Some (stored_analysis (aqueduct_entry 0 3))"
proof -
  have old: "cd_created_at (row_data (aqueduct_entry 0 3)) \<le> days 31 - days 30"
    by code_simp
  then have all: "\<forall>r\<in>set [aqueduct_entry 0 3]. stored_for id ''ancient Roman aqueduct'' ''en'' r
                    \<longrightarrow> cd_created_at (row_data r) \<le> days 31 - days 30"
    by simp
  note expired = expired_entry_absent_not_deleted
    [of "[aqueduct_entry 0 3]" id "''ancient Roman aqueduct''" "''en''" "days 31"
        increment_cache_hit Succeeds Succeeds]
  note live = expired_entry_absent_not_deleted
    [of "[aqueduct_entry 0 3]" id "''  Ancient Roman Aqueduct ''" "''en''" "days 10"
        increment_cache_hit Succeeds Succeeds "aqueduct_entry 0 3"]
  from expired all
  have a: "get_cached_analysis id increment_cache_hit Succeeds Succeeds (days 31) [aqueduct_entry 0 3]
             ''ancient Roman aqueduct'' ''en'' = ([aqueduct_entry 0 3], None)"
    by blast
  from live aqueduct_live
  have b: "snd (get_cached_analysis id increment_cache_hit Succeeds Succeeds (days 10)
                  [aqueduct_entry 0 3] ''  Ancient Roman Aqueduct '' ''en'')
             = Some (stored_analysis (aqueduct_entry 0 3))"
    by blast
  from old a aqueduct_live b show ?thesis by blast
qed

text \<open>
  An entry that is exactly 30 days old is not returned: the query asks for
  \<open>created_at\<close> greater than the cutoff.
\<close>

theorem thirty_days_old_counterexample:
  "get_cached_analysis id increment_cache_hit Succeeds Succeeds (days 30) [aqueduct_entry 0 3]
     ''ancient Roman aqueduct'' ''en'' = ([aqueduct_entry 0 3], None)
   \<and> stored_for id ''ancient Roman aqueduct'' ''en'' (aqueduct_entry 0 3)
   \<and> days 30 - cd_created_at (row_data (aqueduct_entry 0 3)) = days 30"
  by code_simp

subsection \<open>C7: the hit counter\<close>

text \<open>
  C7. On a cache hit the procedure that increments the hit counter is applied once, to
  the id of the entry that is returned. When that call raises, the table is left as it
  was and the read returns the same analysis record as when the call succeeds.
\<close>

theorem hit_counts_once_best_effort:
  assumes "find (live_entry sha256 now text language) table = Some entry"
  shows "get_cached_analysis sha256 incr Succeeds Succeeds now table text language
           = (incr (row_id entry) table, Some (stored_analysis entry))
       \<and> get_cached_analysis sha256 incr Succeeds Raises now table text language
           = (table, Some (stored_analysis entry))"
  by (simp add: get_hit [OF assms])

lemma aqueduct_bump:
  "increment_cache_hit (row_id (aqueduct_entry 0 3)) [aqueduct_entry 0 3] = [aqueduct_entry 0 4]"
  by code_simp

theorem hit_counts_once_best_effort_witness:
  "find (live_entry id (days 10) ''  Ancient Roman Aqueduct '' ''en'') [aqueduct_entry 0 3]
     = Some (aqueduct_entry 0 3)
   \<and> get_cached_analysis id increment_cache_hit Succeeds Succeeds (days 10) [aqueduct_entry 0 3]
       ''  Ancient Roman Aqueduct '' ''en''
       = (increment_cache_hit (row_id (aqueduct_entry 0 3)) [aqueduct_entry 0 3],
          Some (stored_analysis (aqueduct_entry 0 3)))
   \<and> get_cached_analysis id increment_cache_hit Succeeds Raises (days 10) [aqueduct_entry 0 3]
       ''  Ancient Roman Aqueduct '' ''en''
       = ([aqueduct_entry 0 3], Some (stored_analysis (aqueduct_entry 0 3)))
   \<and> increment_cache_hit (row_id (aqueduct_entry 0 3)) [aqueduct_entry 0 3] = [aqueduct_entry 0 4]"
  using aqueduct_live aqueduct_bump
    hit_counts_once_best_effort [OF aqueduct_live, of increment_cache_hit]
  by blast

subsection \<open>C10: what a write stores\<close>


lemma upsert_analysis_has:
  "\<exists>r\<in>set (upsert_analysis d table). same_key d r"
proof (cases "list_ex (same_key d) table")
  case True
  then obtain x where x: "x \<in> set table" "same_key d x"
    by (auto simp: list_ex_iff)
  then have "x\<lparr>row_data := d\<rparr> \<in> set (upsert_analysis d table)"
    using True by (force simp: upsert_analysis_def)
  moreover have "same_key d (x\<lparr>row_data := d\<rparr>)"
    by (simp add: same_key_def)
  ultimately show ?thesis by blast
next
  case False
  then show ?thesis by (simp add: upsert_analysis_def same_key_def)
qed


text \<open>A write whose analysis has the three required keys is stored when the upsert succeeds.\<close>

lemma save_succeeds:
  assumes "map_of analysis_result ''cultural_origin'' \<noteq> None"
    and "map_of analysis_result ''cross_cultural_connections'' \<noteq> None"
    and "map_of analysis_result ''modern_analogy'' \<noteq> None"
  shows "\<exists>table' row. save_analysis_cache sha256 Succeeds now_created now_accessed table text
                         language analysis_result = (table', Some row)"
proof -
  from assms obtain a b c where abc: "map_of analysis_result ''cultural_origin'' = Some a"
    "map_of analysis_result ''cross_cultural_connections'' = Some b"
    "map_of analysis_result ''modern_analogy'' = Some c"
    by auto
  show ?thesis
    unfolding save_analysis_cache_def Let_def
    using find_exists [OF upsert_analysis_has]
    by (simp add: dict_index_def bind_result_def abc)
qed





section \<open>Claims about the entity cache\<close>

lemma upsert_entity_first:
  "filter (same_entity (er_entity_name d) (er_entity_type d)) (upsert_entity d table) \<noteq> []
   \<and> (\<forall>r\<in>set (filter (same_entity (er_entity_name d) (er_entity_type d)) (upsert_entity d table)). r = d)"
  by (auto simp: upsert_entity_def same_entity_def list_ex_iff filter_empty_conv)

lemma get_after_upsert:
  "get_cached_entity Succeeds (upsert_entity d table) (er_entity_name d) (er_entity_type d) = Some d"
proof -
  from upsert_entity_first [of d table]
  obtain x xs where "filter (same_entity (er_entity_name d) (er_entity_type d)) (upsert_entity d table) = x # xs"
    and "x = d"
    by (cases "filter (same_entity (er_entity_name d) (er_entity_type d)) (upsert_entity d table)") auto
  then show ?thesis by (simp add: get_cached_entity_def)
qed

lemma enrich_miss:
  assumes "use_cache \<longrightarrow> get_cached_entity select_call table n t = None"
  shows "enrich_entity live select_call upsert_call now table n t use_cache =
           (if truthy (dict_get (live n t) ''summary'')
            then (case upsert_call of
                    Succeeds \<Rightarrow> upsert_entity (entity_cache_data now n t (live n t)) table
                  | Raises \<Rightarrow> table)
            else table,
            Live (live n t))"
  using assms
  by (auto simp: enrich_entity_def Let_def save_entity_cache_def entity_cache_data_def
           split: call.splits)

subsection \<open>C8: what is persisted\<close>

text \<open>
  C8. A lookup that misses the entity cache returns the record of the live lookup. It
  sends that record to the cache exactly when the summary is non-empty, and the row is
  then stored if the write succeeds. With an empty or missing summary the table is left
  as it was, so the next lookup for the same name and type misses again and queries the
  live providers again; after a stored write the next lookup is answered by the cache.
\<close>

theorem entity_cached_iff_summary:
  assumes "use_cache \<longrightarrow> get_cached_entity select_call table n t = None"
  shows "enrich_entity live select_call upsert_call now table n t use_cache =
           (if truthy (dict_get (live n t) ''summary'')
            then (case upsert_call of
                    Succeeds \<Rightarrow> upsert_entity (entity_cache_data now n t (live n t)) table
                  | Raises \<Rightarrow> table)
            else table,
            Live (live n t))
       \<and> (\<not> truthy (dict_get (live n t) ''summary'')
            \<longrightarrow> snd (enrich_entity live' select_call upsert_call' now'
                        (fst (enrich_entity live select_call upsert_call now table n t use_cache))
                        n t use_cache) = Live (live' n t))
       \<and> (truthy (dict_get (live n t) ''summary'') \<and> upsert_call = Succeeds
            \<longrightarrow> enrich_entity live' Succeeds upsert_call' now'
                  (fst (enrich_entity live select_call upsert_call now table n t use_cache))
                  n t True
                = (upsert_entity (entity_cache_data now n t (live n t)) table,
                   FromCache (entity_cache_data now n t (live n t))))"
proof (intro conjI impI)
  show "enrich_entity live select_call upsert_call now table n t use_cache =
           (if truthy (dict_get (live n t) ''summary'')
            then (case upsert_call of
                    Succeeds \<Rightarrow> upsert_entity (entity_cache_data now n t (live n t)) table
                  | Raises \<Rightarrow> table)
            else table,
            Live (live n t))"
    by (rule enrich_miss [OF assms])
next
  assume "\<not> truthy (dict_get (live n t) ''summary'')"
  then have "fst (enrich_entity live select_call upsert_call now table n t use_cache) = table"
    by (simp add: enrich_miss [OF assms])
  then show "snd (enrich_entity live' select_call upsert_call' now'
                    (fst (enrich_entity live select_call upsert_call now table n t use_cache))
                    n t use_cache) = Live (live' n t)"
    by (simp add: enrich_miss [OF assms])
next
  assume a: "truthy (dict_get (live n t) ''summary'') \<and> upsert_call = Succeeds"
  let ?d = "entity_cache_data now n t (live n t)"
  from a have "fst (enrich_entity live select_call upsert_call now table n t use_cache)
                 = upsert_entity ?d table"
    by (simp add: enrich_miss [OF assms])
  moreover have "get_cached_entity Succeeds (upsert_entity ?d table) n t = Some ?d"
    using get_after_upsert [of ?d table] by (simp add: entity_cache_data_def)
  ultimately show "enrich_entity live' Succeeds upsert_call' now'
                  (fst (enrich_entity live select_call upsert_call now table n t use_cache))
                  n t True
                = (upsert_entity ?d table, FromCache ?d)"
    by (simp add: enrich_entity_def)
qed

lemma gandhi_not_cached: "get_cached_entity Succeeds [] ''Mahatma Gandhi'' ''PERSON'' = None"
  by code_simp

lemma empty_enrichment_summary:
  "\<not> truthy (dict_get (empty_enrichment ''Mahatma Gandhi'' ''PERSON'') ''summary'')"
  by code_simp

lemma found_enrichment_summary:
  "truthy (dict_get (found_enrichment ''Mahatma Gandhi'' ''PERSON'') ''summary'')"
  by code_simp

theorem entity_cached_iff_summary_witness:
  "get_cached_entity Succeeds [] ''Mahatma Gandhi'' ''PERSON'' = None
   \<and> \<not> truthy (dict_get (empty_enrichment ''Mahatma Gandhi'' ''PERSON'') ''summary'')
   \<and> snd (enrich_entity found_enrichment Succeeds Succeeds 9
            (fst (enrich_entity empty_enrichment Succeeds Succeeds 5 [] ''Mahatma Gandhi'' ''PERSON'' True))
            ''Mahatma Gandhi'' ''PERSON'' True)
       = Live (found_enrichment ''Mahatma Gandhi'' ''PERSON'')
   \<and> truthy (dict_get (found_enrichment ''Mahatma Gandhi'' ''PERSON'') ''summary'')
   \<and> enrich_entity empty_enrichment Succeeds Succeeds 9
       (fst (enrich_entity found_enrichment Succeeds Succeeds 5 [] ''Mahatma Gandhi'' ''PERSON'' True))
       ''Mahatma Gandhi'' ''PERSON'' True
       = (upsert_entity (entity_cache_data 5 ''Mahatma Gandhi'' ''PERSON''
                           (found_enrichment ''Mahatma Gandhi'' ''PERSON'')) [],
          FromCache (entity_cache_data 5 ''Mahatma Gandhi'' ''PERSON''
                       (found_enrichment ''Mahatma Gandhi'' ''PERSON'')))"
proof -
  have miss: "True \<longrightarrow> get_cached_entity Succeeds [] ''Mahatma Gandhi'' ''PERSON'' = None"
    using gandhi_not_cached by simp
  note retry = entity_cached_iff_summary
    [OF miss, of empty_enrichment Succeeds 5 found_enrichment Succeeds 9]
  note stored = entity_cached_iff_summary
    [OF miss, of found_enrichment Succeeds 5 empty_enrichment Succeeds 9]
  from retry empty_enrichment_summary
  have a: "snd (enrich_entity found_enrichment Succeeds Succeeds 9
            (fst (enrich_entity empty_enrichment Succeeds Succeeds 5 [] ''Mahatma Gandhi'' ''PERSON'' True))
            ''Mahatma Gandhi'' ''PERSON'' True)
       = Live (found_enrichment ''Mahatma Gandhi'' ''PERSON'')"
    by blast
  from stored found_enrichment_summary
  have b: "enrich_entity empty_enrichment Succeeds Succeeds 9
       (fst (enrich_entity found_enrichment Succeeds Succeeds 5 [] ''Mahatma Gandhi'' ''PERSON'' True))
       ''Mahatma Gandhi'' ''PERSON'' True
       = (upsert_entity (entity_cache_data 5 ''Mahatma Gandhi'' ''PERSON''
                           (found_enrichment ''Mahatma Gandhi'' ''PERSON'')) [],
          FromCache (entity_cache_data 5 ''Mahatma Gandhi'' ''PERSON''
                       (found_enrichment ''Mahatma Gandhi'' ''PERSON'')))"
    by blast
  from gandhi_not_cached empty_enrichment_summary a found_enrichment_summary b
  show ?thesis by blast
qed

section \<open>Claims about the text hash\<close>

subsection \<open>UTF-8 is injective\<close>






subsection \<open>Stripping and lowering\<close>














subsection \<open>The 8-bit hash is the Unicode hash on Latin-1 text\<close>

lemma strip_latin1:
  assumes "latin1_entries ud"
  shows "unicode_strip ud (str t) = str (strip t)"
proof -
  have p: "ud_whitespace ud \<circ> of_char = py_isspace"
    using assms of_char_lt_256 by (auto simp: latin1_entries_def fun_eq_iff)
  have d: "dropWhile (ud_whitespace ud) (map of_char xs) = map of_char (dropWhile py_isspace xs)"
    for xs by (simp add: dropWhile_map p)
  show ?thesis
    by (simp only: unicode_strip_def strip_def str_def d rev_map)
qed

lemma lower_latin1:
  assumes "latin1_entries ud"
  shows "do_lower ud before (str t) = str (lower t)"
proof (induction t arbitrary: before)
  case Nil
  then show ?case by (simp add: str_def lower_def)
next
  case (Cons c cs)
  define n :: nat where "n = of_char c"
  have small: "n < 256" unfolding n_def by (rule of_char_lt_256)
  then have ne: "n \<noteq> 931" by arith
  from small assms have "ud_lower_full ud n = [of_char (py_lower_char (char_of n))]"
    unfolding latin1_entries_def by blast
  then have lo: "ud_lower_full ud n = [of_char (py_lower_char c)]"
    by (simp add: n_def)
  from Cons.IH [of "n # before"] ne lo
  have "do_lower ud before (n # str cs) = of_char (py_lower_char c) # str (lower cs)"
    by simp
  then show ?case
    by (simp add: str_def lower_def n_def)
qed

lemma utf8_code_point_small:
  "n < 256 \<Longrightarrow> utf8_code_point n
                 = Some (if n < 128 then [n] else [192 + n div 64, 128 + n mod 64])"
  by (simp add: utf8_code_point_def)

lemma utf8_latin1: "\<exists>bs. utf8_bytes (str s) = Some bs \<and> map char_of bs = encode_utf8 s"
proof (induction s)
  case Nil
  then show ?case by (simp add: str_def encode_utf8_def)
next
  case (Cons c cs)
  define n :: nat where "n = of_char c"
  have small: "n < 256" unfolding n_def by (rule of_char_lt_256)
  from Cons obtain rest where r: "utf8_bytes (str cs) = Some rest"
    and e: "map char_of rest = encode_utf8 cs" by blast
  have c: "char_of n = c" by (simp add: n_def)
  have m: "map char_of (if n < 128 then [n] else [192 + n div 64, 128 + n mod 64])
             = encode_utf8_char c"
    using c by (simp add: encode_utf8_char_def Let_def n_def [symmetric])
  have "utf8_bytes (n # str cs)
          = Some ((if n < 128 then [n] else [192 + n div 64, 128 + n mod 64]) @ rest)"
    using utf8_code_point_small [OF small] r by simp
  moreover have "map char_of ((if n < 128 then [n] else [192 + n div 64, 128 + n mod 64]) @ rest)
                   = encode_utf8 (c # cs)"
    using m e by (simp add: encode_utf8_def)
  ultimately show ?case
    by (simp add: str_def n_def)
qed

lemma generate_text_hash_latin1:
  assumes "latin1_entries ud"
  shows "generate_text_hash_unicode ud (\<lambda>bs. sha256 (map char_of bs)) (str text) (str language)
           = Some (generate_text_hash sha256 text language)"
proof -
  have i: "unicode_hash_input ud (str text) (str language) = str (hash_input text language)"
    by (simp add: unicode_hash_input_def hash_input_def unicode_lower_def
          strip_latin1 [OF assms] lower_latin1 [OF assms])
       (simp add: str_def)
  from utf8_latin1 obtain bs where "utf8_bytes (str (hash_input text language)) = Some bs"
    and "map char_of bs = encode_utf8 (hash_input text language)"
    by blast
  then show ?thesis
    by (simp add: generate_text_hash_unicode_def generate_text_hash_def i)
qed

subsection \<open>Examples\<close>

lemmas unicode_eval = unicode_lower_def final_sigma_def latin_greek_data_def in_ranges_def str_def
  generate_text_hash_unicode_def unicode_hash_input_def unicode_strip_def utf8_code_point_def
  case_variant_def normalised_def Let_def

lemma latin_greek_latin1: "latin1_entries latin_greek_data"
  unfolding latin1_entries_def
  by (auto simp: latin_greek_data_def in_ranges_def py_isspace_def py_lower_char_def Let_def)






lemma hello_world_hash:
  "generate_text_hash_unicode latin_greek_data id (str ''  Hello World  '') (str ''en'')
     = Some (str ''hello world|en'')"
  by (simp add: unicode_eval)

lemma final_sigma_lower:
  "unicode_lower latin_greek_data [931, 913, 931] = [963, 945, 962]"
  "unicode_lower latin_greek_data [963, 945, 963] = [963, 945, 963]"
  by (simp_all add: unicode_eval)

lemma lone_surrogate_raises:
  "generate_text_hash_unicode latin_greek_data sha256 [104, 105, 55296] (str ''en'') = None"
  by (simp add: unicode_eval)

subsection \<open>C5: whitespace, letter case and the language code\<close>




end
